theory Spec2Isabelle
  imports Complex_Main
begin

section \<open>Python string and list primitives used by the pipeline\<close>

text \<open>
  A string is a list of characters, and a character is a code point below 256 (the
  8-bit \<open>char\<close> of HOL: ASCII and Latin-1); Python strings holding other code points
  have no counterpart here.  On these code points \<open>str.lower()\<close> changes the letters
  \<open>A\<close> to \<open>Z\<close> and the Latin-1 capitals \<open>0xC0\<close> to \<open>0xDE\<close> (but not \<open>0xD7\<close>), each
  to the code point 32 above it.  \<open>p in s\<close> on strings is substring search, and
  \<open>xs[i:]\<close> is Python's slice with its treatment of negative start indices.
\<close>

definition upper_chars :: string where
  "upper_chars =
     ''ABCDEFGHIJKLMNOPQRSTUVWXYZ'' @
     [CHR 0xC0, CHR 0xC1, CHR 0xC2, CHR 0xC3, CHR 0xC4, CHR 0xC5, CHR 0xC6, CHR 0xC7,
      CHR 0xC8, CHR 0xC9, CHR 0xCA, CHR 0xCB, CHR 0xCC, CHR 0xCD, CHR 0xCE, CHR 0xCF,
      CHR 0xD0, CHR 0xD1, CHR 0xD2, CHR 0xD3, CHR 0xD4, CHR 0xD5, CHR 0xD6,
      CHR 0xD8, CHR 0xD9, CHR 0xDA, CHR 0xDB, CHR 0xDC, CHR 0xDD, CHR 0xDE]"

definition lower_chars :: string where
  "lower_chars =
     ''abcdefghijklmnopqrstuvwxyz'' @
     [CHR 0xE0, CHR 0xE1, CHR 0xE2, CHR 0xE3, CHR 0xE4, CHR 0xE5, CHR 0xE6, CHR 0xE7,
      CHR 0xE8, CHR 0xE9, CHR 0xEA, CHR 0xEB, CHR 0xEC, CHR 0xED, CHR 0xEE, CHR 0xEF,
      CHR 0xF0, CHR 0xF1, CHR 0xF2, CHR 0xF3, CHR 0xF4, CHR 0xF5, CHR 0xF6,
      CHR 0xF8, CHR 0xF9, CHR 0xFA, CHR 0xFB, CHR 0xFC, CHR 0xFD, CHR 0xFE]"

definition lower_char :: "char \<Rightarrow> char" where
  "lower_char c =
     (case map_of (zip upper_chars lower_chars) c of
        Some l \<Rightarrow> l
      | None \<Rightarrow> c)"

definition lower :: "string \<Rightarrow> string" where
  "lower s = map lower_char s"

fun startswith :: "string \<Rightarrow> string \<Rightarrow> bool" where
  "startswith s [] = True"
| "startswith [] (p # ps) = False"
| "startswith (c # cs) (p # ps) = (c = p \<and> startswith cs ps)"

fun str_contains :: "string \<Rightarrow> string \<Rightarrow> bool" where
  "str_contains [] p = (p = [])"
| "str_contains (c # cs) p = (startswith (c # cs) p \<or> str_contains cs p)"

text \<open>\<open>sep.join(xs)\<close>.\<close>

fun py_join :: "string \<Rightarrow> string list \<Rightarrow> string" where
  "py_join sep [] = []"
| "py_join sep [x] = x"
| "py_join sep (x # y # ys) = x @ sep @ py_join sep (y # ys)"

text \<open>
  \<open>s.strip()\<close> removes leading and trailing white space: the characters for which
  \<open>str.isspace\<close> holds, which below 256 are the twelve listed (among them the
  next-line character \<open>0x85\<close> and the no-break space \<open>0xA0\<close>).  The pattern
  \<open>\d\<close> matches the decimal digits, which below 256 are \<open>0\<close> to \<open>9\<close>.
\<close>

definition is_space :: "char \<Rightarrow> bool" where
  "is_space c \<longleftrightarrow>
     c \<in> set [CHR 0x09, CHR 0x0A, CHR 0x0B, CHR 0x0C, CHR 0x0D,
                CHR 0x1C, CHR 0x1D, CHR 0x1E, CHR 0x1F, CHR 0x20, CHR 0x85, CHR 0xA0]"

definition strip :: "string \<Rightarrow> string" where
  "strip s = rev (dropWhile is_space (rev (dropWhile is_space s)))"

definition is_digit :: "char \<Rightarrow> bool" where
  "is_digit c \<longleftrightarrow> c \<in> set ''0123456789''"

text \<open>
  \<open>repr\<close> of a string: single quotes unless the string holds a single quote and no
  double quote; the quote and the backslash are escaped with a backslash, tab, newline
  and carriage return by their letters, and every other character that is not
  printable (below 32, from 127 to 160, and 173) as \<open>\xNN\<close>.
\<close>

definition hex_digit :: "nat \<Rightarrow> char" where
  "hex_digit n = ''0123456789abcdef'' ! (n mod 16)"

definition py_repr_char :: "char \<Rightarrow> char \<Rightarrow> string" where
  "py_repr_char q c =
     (if c = q \<or> c = CHR 0x5C then [CHR 0x5C, c]
      else if c = CHR 0x09 then [CHR 0x5C, CHR ''t'']
      else if c = CHR 0x0A then [CHR 0x5C, CHR ''n'']
      else if c = CHR 0x0D then [CHR 0x5C, CHR ''r'']
      else if (of_char c :: nat) < 32
              \<or> (127 \<le> (of_char c :: nat) \<and> (of_char c :: nat) \<le> 160)
              \<or> (of_char c :: nat) = 173
      then [CHR 0x5C, CHR ''x'', hex_digit (of_char c div 16), hex_digit (of_char c)]
      else [c])"

definition py_repr_str :: "string \<Rightarrow> string" where
  "py_repr_str s =
     (let q = (if CHR 0x27 \<in> set s \<and> CHR 0x22 \<notin> set s then CHR 0x22 else CHR 0x27)
      in [q] @ concat (map (py_repr_char q) s) @ [q])"

definition repr_opt_str :: "string option \<Rightarrow> string" where
  "repr_opt_str x = (case x of None \<Rightarrow> ''None'' | Some s \<Rightarrow> py_repr_str s)"

text \<open>\<open>str\<close> of an integer: decimal digits, with a minus sign when negative.\<close>

function str_nat :: "nat \<Rightarrow> string" where
  "str_nat n =
     (if n < 10 then [''0123456789'' ! n]
      else str_nat (n div 10) @ [''0123456789'' ! (n mod 10)])"
  by pat_completeness auto
termination
  by (relation "measure id") auto

declare str_nat.simps [simp del]

definition str_int :: "int \<Rightarrow> string" where
  "str_int i = (if i < 0 then CHR ''-'' # str_nat (nat (- i)) else str_nat (nat i))"

definition py_slice_from :: "int \<Rightarrow> 'a list \<Rightarrow> 'a list" where
  "py_slice_from i xs =
     (if i < 0 then drop (nat (int (length xs) + i)) xs else drop (nat i) xs)"


section \<open>Conversational memory (services/memory\_manager.py)\<close>

record message =
  role :: string
  content :: string

record MemoryManager =
  max_history :: int
  conversation_history :: "message list"
  last_mentioned_vessels :: "string list"
  last_intent :: "string option"

definition MemoryManager_init :: "int \<Rightarrow> MemoryManager" where
  "MemoryManager_init mx =
     \<lparr>max_history = mx, conversation_history = [], last_mentioned_vessels = [],
      last_intent = None\<rparr>"

definition add_message :: "MemoryManager \<Rightarrow> string \<Rightarrow> string \<Rightarrow> MemoryManager" where
  "add_message self r c =
     (let h = conversation_history self @ [\<lparr>role = r, content = c\<rparr>]
      in self\<lparr>conversation_history :=
               (if int (length h) > max_history self
                then py_slice_from (- max_history self) h
                else h)\<rparr>)"

text \<open>A sequence of \<open>add_message\<close> calls, oldest call first.\<close>

fun add_messages :: "MemoryManager \<Rightarrow> (string \<times> string) list \<Rightarrow> MemoryManager" where
  "add_messages self [] = self"
| "add_messages self ((r, c) # calls) = add_messages (add_message self r c) calls"

definition as_message :: "string \<times> string \<Rightarrow> message" where
  "as_message rc = \<lparr>role = fst rc, content = snd rc\<rparr>"

text \<open>The last \<open>n\<close> entries of a list, oldest first.\<close>

definition lastn :: "nat \<Rightarrow> 'a list \<Rightarrow> 'a list" where
  "lastn n xs = drop (length xs - n) xs"

definition update_vessel_context :: "MemoryManager \<Rightarrow> string list \<Rightarrow> MemoryManager" where
  "update_vessel_context self vs =
     (if vs \<noteq> [] then self\<lparr>last_mentioned_vessels := vs\<rparr> else self)"

definition update_intent_context :: "MemoryManager \<Rightarrow> string \<Rightarrow> MemoryManager" where
  "update_intent_context self i = self\<lparr>last_intent := Some i\<rparr>"

text \<open>The dictionary returned by \<open>resolve_references\<close>.\<close>

record resolved_refs =
  ref_vessels :: "string list"
  ref_intent :: "string option"
  has_reference :: bool

definition pronouns :: "string list" where
  "pronouns = [''it'', ''its'', ''them'', ''their'', ''that vessel'', ''those vessels'',
               ''the vessel'', ''the ship'']"

definition intent_refs :: "string list" where
  "intent_refs = [''same'', ''again'', ''also'']"

text \<open>Truthiness of an \<open>Optional[str]\<close>: neither \<open>None\<close> nor the empty string.\<close>

fun truthy_str :: "string option \<Rightarrow> bool" where
  "truthy_str None = False"
| "truthy_str (Some s) = (s \<noteq> [])"

definition resolve_references :: "MemoryManager \<Rightarrow> string \<Rightarrow> resolved_refs" where
  "resolve_references self query =
     (let query_lower = lower query;
          resolved = \<lparr>ref_vessels = [], ref_intent = None, has_reference = False\<rparr>;
          has_pronoun = list_ex (\<lambda>pronoun. str_contains query_lower pronoun) pronouns;
          resolved = (if has_pronoun \<and> last_mentioned_vessels self \<noteq> []
                      then resolved\<lparr>ref_vessels := last_mentioned_vessels self,
                                    has_reference := True\<rparr>
                      else resolved);
          resolved = (if list_ex (\<lambda>r. str_contains query_lower r) intent_refs
                         \<and> truthy_str (last_intent self)
                      then resolved\<lparr>ref_intent := last_intent self, has_reference := True\<rparr>
                      else resolved)
      in resolved)"



section \<open>Canonical intent schema (config/schemas.py)\<close>

text \<open>
  The \<open>Literal\<close> fields are datatypes; each has the string it stands for in the
  serialized intent.  \<open>distance_nm\<close> is an optional float, modelled as an optional
  rational (a finite number).
\<close>

datatype domain_intent_t = Trajectory | Loitering | Prediction | Listing
datatype task_intent_t = Show | Predict | Detect | List_task
datatype vessel_scope_t = Single | Multiple | All_vessels
datatype time_mode_t = Relative | Absolute
datatype spatial_type_t = No_spatial | Coastal_distance | Polygon
datatype data_source_t = Raw_ais | Ml_predictions | Model_inference
datatype output_format_t = Map_format | Table_format | Summary_format

fun domain_str :: "domain_intent_t \<Rightarrow> string" where
  "domain_str Trajectory = ''trajectory''"
| "domain_str Loitering = ''loitering''"
| "domain_str Prediction = ''prediction''"
| "domain_str Listing = ''listing''"

fun task_str :: "task_intent_t \<Rightarrow> string" where
  "task_str Show = ''show''"
| "task_str Predict = ''predict''"
| "task_str Detect = ''detect''"
| "task_str List_task = ''list''"

fun scope_str :: "vessel_scope_t \<Rightarrow> string" where
  "scope_str Single = ''single''"
| "scope_str Multiple = ''multiple''"
| "scope_str All_vessels = ''all''"

fun mode_str :: "time_mode_t \<Rightarrow> string" where
  "mode_str Relative = ''relative''"
| "mode_str Absolute = ''absolute''"

fun spatial_str :: "spatial_type_t \<Rightarrow> string" where
  "spatial_str No_spatial = ''none''"
| "spatial_str Coastal_distance = ''coastal_distance''"
| "spatial_str Polygon = ''polygon''"

fun source_str :: "data_source_t \<Rightarrow> string" where
  "source_str Raw_ais = ''raw_ais''"
| "source_str Ml_predictions = ''ml_predictions''"
| "source_str Model_inference = ''model_inference''"

fun format_str :: "output_format_t \<Rightarrow> string" where
  "format_str Map_format = ''map''"
| "format_str Table_format = ''table''"
| "format_str Summary_format = ''summary''"

record VesselIdentifier =
  vi_imo :: "string option"
  vi_mmsi :: "string option"
  vi_name :: "string option"

record TimeConstraint =
  tc_mode :: time_mode_t
  tc_relative :: "string option"
  tc_start :: "string option"
  tc_end :: "string option"

record SpatialConstraint =
  sc_type :: spatial_type_t
  sc_distance_nm :: "rat option"
  sc_polygon_type :: "string option"
  sc_polygon_id :: "string option"

record ExecutionMode =
  em_data_source :: data_source_t
  em_model_name :: "string option"

record OutputConfig =
  out_format :: output_format_t
  out_limit :: int

record CanonicalIntent =
  domain_intent :: domain_intent_t
  task_intent :: task_intent_t
  vessel_scope :: vessel_scope_t
  vessels :: "VesselIdentifier list"
  time_constraint :: TimeConstraint
  spatial_constraint :: SpatialConstraint
  execution_mode :: ExecutionMode
  output_config :: OutputConfig

text \<open>
  Behaviour of the Python library that the pipeline calls and that is not part of the
  repository: \<open>datetime.fromisoformat\<close> (\<open>None\<close> when it raises \<open>ValueError\<close>)
  and \<open>repr\<close> of a float.  A parsed datetime is naive or timezone-aware, with its
  instant in seconds; comparing a naive with an aware one raises \<open>TypeError\<close>.
\<close>

datatype datetime = Naive rat | Aware rat

record pylib =
  fromisoformat :: "string \<Rightarrow> datetime option"
  float_repr :: "rat \<Rightarrow> string"

fun dt_less :: "datetime \<Rightarrow> datetime \<Rightarrow> bool option" where
  "dt_less (Naive a) (Naive b) = Some (a < b)"
| "dt_less (Aware a) (Aware b) = Some (a < b)"
| "dt_less (Naive a) (Aware b) = None"
| "dt_less (Aware a) (Naive b) = None"

text \<open>
  \<open>str(intent.to_dict())\<close>: the dictionary produced by \<open>model_dump()\<close>, with the
  fields in declaration order, printed the way Python prints a dictionary.
\<close>

definition repr_opt_float :: "pylib \<Rightarrow> rat option \<Rightarrow> string" where
  "repr_opt_float py x = (case x of None \<Rightarrow> ''None'' | Some d \<Rightarrow> float_repr py d)"

definition VesselIdentifier_str :: "VesselIdentifier \<Rightarrow> string" where
  "VesselIdentifier_str v =
     ''{'imo': '' @ repr_opt_str (vi_imo v) @
     '', 'mmsi': '' @ repr_opt_str (vi_mmsi v) @
     '', 'name': '' @ repr_opt_str (vi_name v) @ ''}''"

definition TimeConstraint_str :: "TimeConstraint \<Rightarrow> string" where
  "TimeConstraint_str t =
     ''{'mode': '' @ py_repr_str (mode_str (tc_mode t)) @
     '', 'relative': '' @ repr_opt_str (tc_relative t) @
     '', 'start': '' @ repr_opt_str (tc_start t) @
     '', 'end': '' @ repr_opt_str (tc_end t) @ ''}''"

definition SpatialConstraint_str :: "pylib \<Rightarrow> SpatialConstraint \<Rightarrow> string" where
  "SpatialConstraint_str py s =
     ''{'type': '' @ py_repr_str (spatial_str (sc_type s)) @
     '', 'distance_nm': '' @ repr_opt_float py (sc_distance_nm s) @
     '', 'polygon_type': '' @ repr_opt_str (sc_polygon_type s) @
     '', 'polygon_id': '' @ repr_opt_str (sc_polygon_id s) @ ''}''"

definition ExecutionMode_str :: "ExecutionMode \<Rightarrow> string" where
  "ExecutionMode_str e =
     ''{'data_source': '' @ py_repr_str (source_str (em_data_source e)) @
     '', 'model_name': '' @ repr_opt_str (em_model_name e) @ ''}''"

definition OutputConfig_str :: "OutputConfig \<Rightarrow> string" where
  "OutputConfig_str out =
     ''{'format': '' @ py_repr_str (format_str (out_format out)) @
     '', 'limit': '' @ str_int (out_limit out) @ ''}''"

definition to_dict_str :: "pylib \<Rightarrow> CanonicalIntent \<Rightarrow> string" where
  "to_dict_str py intent =
     ''{'domain_intent': '' @ py_repr_str (domain_str (domain_intent intent)) @
     '', 'task_intent': '' @ py_repr_str (task_str (task_intent intent)) @
     '', 'vessel_scope': '' @ py_repr_str (scope_str (vessel_scope intent)) @
     '', 'vessels': ['' @ py_join '', '' (map VesselIdentifier_str (vessels intent)) @ '']'' @
     '', 'time_constraint': '' @ TimeConstraint_str (time_constraint intent) @
     '', 'spatial_constraint': '' @ SpatialConstraint_str py (spatial_constraint intent) @
     '', 'execution_mode': '' @ ExecutionMode_str (execution_mode intent) @
     '', 'output': '' @ OutputConfig_str (output_config intent) @ ''}''"


section \<open>Validation helpers (utils/validators.py)\<close>

text \<open>
  \<open>validate_mmsi\<close>: false on the empty string; otherwise the stripped string must match
  \<open>^\d{9}$\<close>, nine decimal digits.
\<close>

definition validate_mmsi :: "string \<Rightarrow> bool" where
  "validate_mmsi mmsi =
     (if mmsi = [] then False
      else (let m = strip mmsi in length m = 9 \<and> list_all is_digit m))"

definition validate_time_range :: "pylib \<Rightarrow> string option \<Rightarrow> string option \<Rightarrow> bool" where
  "validate_time_range py start_s end_s =
     (if \<not> truthy_str start_s \<or> \<not> truthy_str end_s then False
      else (case (fromisoformat py (the start_s), fromisoformat py (the end_s)) of
              (Some start_dt, Some end_dt) \<Rightarrow>
                (case dt_less start_dt end_dt of Some b \<Rightarrow> b | None \<Rightarrow> False)
            | _ \<Rightarrow> False))"


section \<open>Plan validator (services/plan\_validator.py)\<close>

definition unsafe_keywords :: "string list" where
  "unsafe_keywords = [''exec'', ''eval'', ''import'', ''os.'', ''subprocess'', ''__'']"

text \<open>
  Each rule contributes its messages in source order; \<open>validate\<close> is their
  concatenation, as the successive \<open>errors.append\<close> calls build it.
\<close>

definition scope_errors :: "CanonicalIntent \<Rightarrow> string list" where
  "scope_errors intent =
     (if vessel_scope intent = Single \<and> length (vessels intent) \<noteq> 1
      then [''vessel_scope is 'single' but vessels list does not contain exactly 1 vessel'']
      else []) @
     (if vessel_scope intent = Multiple \<and> length (vessels intent) < 2
      then [''vessel_scope is 'multiple' but vessels list contains less than 2 vessels'']
      else []) @
     (if vessel_scope intent = All_vessels \<and> length (vessels intent) > 0
      then [''vessel_scope is 'all' but vessels list is not empty'']
      else [])"

definition mmsi_errors :: "CanonicalIntent \<Rightarrow> string list" where
  "mmsi_errors intent =
     concat (map (\<lambda>vessel.
        if truthy_str (vi_mmsi vessel) \<and> \<not> validate_mmsi (the (vi_mmsi vessel))
        then [''Invalid MMSI format: '' @ the (vi_mmsi vessel)]
        else []) (vessels intent))"

definition time_errors :: "pylib \<Rightarrow> CanonicalIntent \<Rightarrow> string list" where
  "time_errors py intent =
     (let tc = time_constraint intent in
      (if tc_mode tc = Relative
       then (if \<not> truthy_str (tc_relative tc)
             then [''Time mode is 'relative' but no relative expression provided'']
             else [])
       else []) @
      (if tc_mode tc = Absolute
       then (if \<not> truthy_str (tc_start tc) \<or> \<not> truthy_str (tc_end tc)
             then [''Time mode is 'absolute' but start/end not provided'']
             else if \<not> validate_time_range py (tc_start tc) (tc_end tc)
             then [''Invalid time range: start must be before end'']
             else [])
       else []))"

definition spatial_errors :: "CanonicalIntent \<Rightarrow> string list" where
  "spatial_errors intent =
     (let sc = spatial_constraint intent in
      (if sc_type sc = Coastal_distance
       then (case sc_distance_nm sc of
               None \<Rightarrow> [''Spatial type is 'coastal_distance' but distance_nm is invalid'']
             | Some d \<Rightarrow>
                 if d \<le> 0
                 then [''Spatial type is 'coastal_distance' but distance_nm is invalid'']
                 else [])
       else []) @
      (if sc_type sc = Polygon
       then (if \<not> truthy_str (sc_polygon_type sc)
             then [''Spatial type is 'polygon' but polygon_type not provided'']
             else [])
       else []))"

definition execution_errors :: "CanonicalIntent \<Rightarrow> string list" where
  "execution_errors intent =
     (if em_data_source (execution_mode intent) = Model_inference
      then (if \<not> truthy_str (em_model_name (execution_mode intent))
            then [''Execution mode is 'model_inference' but model_name not provided'']
            else [])
      else [])"

definition compatibility_errors :: "CanonicalIntent \<Rightarrow> string list" where
  "compatibility_errors intent =
     (if domain_intent intent = Loitering \<and> task_intent intent \<notin> set [Detect, Show]
      then [''Incompatible: domain_intent 'loitering' with task_intent ''
            @ [CHR 0x27] @ task_str (task_intent intent) @ [CHR 0x27]]
      else []) @
     (if domain_intent intent = Prediction \<and> task_intent intent \<noteq> Predict
      then [''Incompatible: domain_intent 'prediction' with task_intent ''
            @ [CHR 0x27] @ task_str (task_intent intent) @ [CHR 0x27]]
      else [])"

definition safety_errors :: "pylib \<Rightarrow> CanonicalIntent \<Rightarrow> string list" where
  "safety_errors py intent =
     (let query_str = to_dict_str py intent in
      concat (map (\<lambda>keyword.
        if str_contains query_str keyword
        then [''Unsafe keyword detected: '' @ keyword]
        else []) unsafe_keywords))"

definition validate :: "pylib \<Rightarrow> CanonicalIntent \<Rightarrow> string list" where
  "validate py intent =
     scope_errors intent @ mmsi_errors intent @ time_errors py intent @
     spatial_errors intent @ execution_errors intent @ compatibility_errors intent @
     safety_errors py intent"

definition is_valid :: "pylib \<Rightarrow> CanonicalIntent \<Rightarrow> bool" where
  "is_valid py intent = (length (validate py intent) = 0)"

text \<open>The example intent of the schema (\<open>CanonicalIntent.Config\<close>).\<close>

definition example_intent :: CanonicalIntent where
  "example_intent =
     \<lparr>domain_intent = Trajectory, task_intent = Show, vessel_scope = Single,
      vessels = [\<lparr>vi_imo = None, vi_mmsi = Some ''123456789'', vi_name = None\<rparr>],
      time_constraint =
        \<lparr>tc_mode = Relative, tc_relative = Some ''last_6h'', tc_start = None, tc_end = None\<rparr>,
      spatial_constraint =
        \<lparr>sc_type = No_spatial, sc_distance_nm = None, sc_polygon_type = None,
         sc_polygon_id = None\<rparr>,
      execution_mode = \<lparr>em_data_source = Raw_ais, em_model_name = None\<rparr>,
      output_config = \<lparr>out_format = Table_format, out_limit = 50\<rparr>\<rparr>"

section \<open>Settings (config/settings.py)\<close>

record Settings =
  max_conversation_history :: int
  default_result_limit :: int
  loitering_speed_threshold_knots :: rat
  loitering_dwell_time_hours :: rat
  coastal_distance_nm :: rat

definition settings :: Settings where
  "settings =
     \<lparr>max_conversation_history = 10, default_result_limit = 50,
      loitering_speed_threshold_knots = 2, loitering_dwell_time_hours = 4,
      coastal_distance_nm = 12\<rparr>"


section \<open>Loitering detection (services/loitering\_service.py)\<close>

text \<open>
  A row of the trajectory table and a row of the loitering-event table.  Numbers are
  rationals: floats are taken as the exact finite numbers they denote (no NaN), and a
  timestamp is its instant in seconds.  The vessel identifier is any ordered type, as
  \<open>groupby\<close> orders the groups by key.
\<close>

record 'v track_point =
  timestamp :: rat
  mmsi :: 'v
  latitude :: rat
  longitude :: rat
  sog :: rat
  cog :: rat
  interpolated :: bool

record 'v loitering_event =
  ev_mmsi :: 'v
  start_time :: rat
  end_time :: rat
  dwell_time_hours :: rat
  center_latitude :: rat
  center_longitude :: rat
  num_points :: nat
  avg_speed :: rat

record LoiteringService =
  svc_speed_threshold :: rat
  svc_dwell_time_hours :: rat

definition LoiteringService_init :: "Settings \<Rightarrow> LoiteringService" where
  "LoiteringService_init cfg =
     \<lparr>svc_speed_threshold = loitering_speed_threshold_knots cfg,
      svc_dwell_time_hours = loitering_dwell_time_hours cfg\<rparr>"

text \<open>\<open>x or d\<close> on an optional float: \<open>None\<close> and \<open>0.0\<close> are both falsy.\<close>

definition float_or :: "rat option \<Rightarrow> rat \<Rightarrow> rat" where
  "float_or x d = (case x of None \<Rightarrow> d | Some v \<Rightarrow> if v = 0 then d else v)"

text \<open>
  \<open>df.groupby(key)\<close>: one group per distinct key, in ascending key order, each group
  holding its rows in their original order.
\<close>

definition groupby :: "('a \<Rightarrow> 'k::linorder) \<Rightarrow> 'a list \<Rightarrow> ('k \<times> 'a list) list" where
  "groupby key rows =
     map (\<lambda>k. (k, filter (\<lambda>r. key r = k) rows)) (sort (remdups (map key rows)))"

text \<open>
  \<open>Series.diff()\<close> on the timestamps, in hours: the first entry is missing (\<open>None\<close>).
\<close>

fun time_diff :: "rat list \<Rightarrow> rat option list" where
  "time_diff [] = []"
| "time_diff (t # ts) = None # map2 (\<lambda>a b. Some ((b - a) / 3600)) (t # ts) ts"

text \<open>\<open>(time_diff > 1.0) | time_diff.isna()\<close>.\<close>

fun new_event :: "rat option \<Rightarrow> bool" where
  "new_event None = True"
| "new_event (Some h) = (h > 1)"

fun cumsum_from :: "nat \<Rightarrow> bool list \<Rightarrow> nat list" where
  "cumsum_from acc [] = []"
| "cumsum_from acc (b # bs) =
     (let acc' = acc + (if b then 1 else 0) in acc' # cumsum_from acc' bs)"

definition cumsum :: "bool list \<Rightarrow> nat list" where
  "cumsum bs = cumsum_from 0 bs"

definition event_ids :: "'v track_point list \<Rightarrow> nat list" where
  "event_ids grp = cumsum (map new_event (time_diff (map timestamp grp)))"

text \<open>\<open>group.groupby('event_id')\<close>: the rows of each event, in event order.\<close>

definition event_groups :: "'v track_point list \<Rightarrow> 'v track_point list list" where
  "event_groups grp =
     map (\<lambda>(event_id, g). map snd g) (groupby fst (zip (event_ids grp) grp))"

text \<open>
  Column minimum, maximum and mean.  They are only applied to event groups of at least
  two rows (on an empty column pandas yields a missing value).
\<close>

fun series_min :: "rat list \<Rightarrow> rat" where
  "series_min [] = 0"
| "series_min (x # xs) = fold min xs x"

fun series_max :: "rat list \<Rightarrow> rat" where
  "series_max [] = 0"
| "series_max (x # xs) = fold max xs x"

definition mean :: "rat list \<Rightarrow> rat" where
  "mean xs = sum_list xs / of_nat (length xs)"

definition dwell_time :: "'v track_point list \<Rightarrow> rat" where
  "dwell_time event_group =
     (series_max (map timestamp event_group) - series_min (map timestamp event_group)) / 3600"

definition make_event :: "'v \<Rightarrow> 'v track_point list \<Rightarrow> 'v loitering_event" where
  "make_event m event_group =
     \<lparr>ev_mmsi = m,
      start_time = series_min (map timestamp event_group),
      end_time = series_max (map timestamp event_group),
      dwell_time_hours = dwell_time event_group,
      center_latitude = mean (map latitude event_group),
      center_longitude = mean (map longitude event_group),
      num_points = length event_group,
      avg_speed = mean (map sog event_group)\<rparr>"

text \<open>
  The body of the loop over one vessel's group.  \<open>sort_values('timestamp')\<close> is the
  sort by timestamp; rows with equal timestamps are kept in table order.
\<close>

definition vessel_events ::
  "rat \<Rightarrow> 'v \<Rightarrow> 'v track_point list \<Rightarrow> 'v loitering_event list" where
  "vessel_events dwell m group0 =
     (let grp = sort_key timestamp group0
      in concat (map (\<lambda>event_group.
           if length event_group < 2 then []
           else if dwell_time event_group \<ge> dwell then [make_event m event_group]
           else []) (event_groups grp)))"

text \<open>Both spatial filters are placeholders that return the events unchanged.\<close>

definition apply_spatial_filter ::
  "'v loitering_event list \<Rightarrow> SpatialConstraint \<Rightarrow> 'v loitering_event list" where
  "apply_spatial_filter df constraint =
     (if sc_type constraint = Coastal_distance then df
      else if sc_type constraint = Polygon then df
      else df)"

text \<open>\<open>df[df['sog'] < speed_threshold]\<close>.\<close>

definition slow_rows :: "rat \<Rightarrow> ('v::linorder) track_point list \<Rightarrow> 'v track_point list" where
  "slow_rows speed_threshold df = filter (\<lambda>r. sog r < speed_threshold) df"

text \<open>
  \<open>detect_loitering\<close>; the empty list stands for the empty \<open>DataFrame\<close> that the
  early returns produce.
\<close>

definition detect_loitering ::
  "LoiteringService \<Rightarrow> ('v::linorder) track_point list \<Rightarrow> rat option \<Rightarrow> rat option \<Rightarrow>
   SpatialConstraint option \<Rightarrow> 'v loitering_event list" where
  "detect_loitering self df speed_threshold_arg dwell_time_hours_arg constraint =
     (if df = [] then []
      else
        (let speed_threshold = float_or speed_threshold_arg (svc_speed_threshold self);
             dwell = float_or dwell_time_hours_arg (svc_dwell_time_hours self);
             df_slow = slow_rows speed_threshold df
         in if df_slow = [] then []
            else
              (let loitering_events =
                     concat (map (\<lambda>(m, grp). vessel_events dwell m grp)
                                 (groupby mmsi df_slow))
               in if loitering_events = [] then []
                  else (case constraint of
                          None \<Rightarrow> loitering_events
                        | Some sc \<Rightarrow>
                            if sc_type sc \<noteq> No_spatial
                            then apply_spatial_filter loitering_events sc
                            else loitering_events))))"

section \<open>Segmentation, after the specification\<close>

text \<open>
  The specification describes the segmentation as one left-to-right scan: the rows of a
  vessel are cut into maximal runs whose consecutive timestamps are at most one hour
  apart, and a gap of more than one hour (or a first row) starts a new segment.  The
  definitions below follow these words; they are compared with \<open>event_groups\<close>, the
  translation of the source, in the theorems.  \<open>gap_hours a b\<close> is the time from
  \<open>a\<close> to \<open>b\<close> in hours; \<open>contiguous\<close> says that no consecutive gap exceeds one
  hour; \<open>separated\<close> says that each segment is more than one hour before the next.
\<close>

definition gap_hours :: "'v track_point \<Rightarrow> 'v track_point \<Rightarrow> rat" where
  "gap_hours a b = (timestamp b - timestamp a) / 3600"

fun contiguous :: "'v track_point list \<Rightarrow> bool" where
  "contiguous [] = True"
| "contiguous [r] = True"
| "contiguous (r # r' # rs) = (gap_hours r r' \<le> 1 \<and> contiguous (r' # rs))"

fun split_runs :: "'v track_point list \<Rightarrow> 'v track_point list list" where
  "split_runs [] = []"
| "split_runs [r] = [[r]]"
| "split_runs (r # r' # rs) =
     (if gap_hours r r' > 1 then [r] # split_runs (r' # rs)
      else (case split_runs (r' # rs) of
              [] \<Rightarrow> [[r]]
            | seg # segs \<Rightarrow> (r # seg) # segs))"

fun separated :: "'v track_point list list \<Rightarrow> bool" where
  "separated [] = True"
| "separated [seg] = True"
| "separated (seg # seg' # segs) = (gap_hours (last seg) (hd seg') > 1 \<and> separated (seg' # segs))"


section \<open>Auxiliary functions for the proofs\<close>

text \<open>
  \<open>runs\<close> cuts a list of flagged elements before every flagged element but the first;
  \<open>later_flags\<close> are the new-event flags of all rows but the first.
\<close>

function runs :: "(bool \<times> 'a) list \<Rightarrow> 'a list list" where
  "runs [] = []"
| "runs ((f, x) # ps) =
     (x # map snd (takeWhile (\<lambda>p. \<not> fst p) ps)) # runs (dropWhile (\<lambda>p. \<not> fst p) ps)"
  by pat_completeness auto
termination
  by (relation "measure length") (auto simp: length_dropWhile_le less_Suc_eq_le)

definition later_flags :: "'v track_point list \<Rightarrow> bool list" where
  "later_flags rows = map2 (\<lambda>a b. new_event (Some ((b - a) / 3600))) (map timestamp rows) (tl (map timestamp rows))"

section \<open>Run state (core/state.py)\<close>

text \<open>
  The \<open>dataframe\<close> slot holds either a trajectory table or a loitering-event table; the
  \<open>result\<close> slot holds the dictionary built by the response builder.
\<close>

datatype 'v dataframe =
  Trajectory_frame "'v track_point list"
| Loitering_frame "'v loitering_event list"

fun frame_len :: "'v dataframe \<Rightarrow> nat" where
  "frame_len (Trajectory_frame rows) = length rows"
| "frame_len (Loitering_frame rows) = length rows"

text \<open>\<open>df.head(n)\<close>.\<close>

definition head :: "int \<Rightarrow> 'a list \<Rightarrow> 'a list" where
  "head n xs = (if 0 \<le> n then take (nat n) xs else take (length xs - nat (- n)) xs)"

fun frame_head :: "int \<Rightarrow> 'v dataframe \<Rightarrow> 'v dataframe" where
  "frame_head n (Trajectory_frame rows) = Trajectory_frame (head n rows)"
| "frame_head n (Loitering_frame rows) = Loitering_frame (head n rows)"

record response =
  resp_format :: string
  resp_data :: "string option"
  resp_message :: "string option"
  resp_count :: nat

record 'v AgentState =
  user_query :: string
  history :: "message list"
  canonical_intent :: "CanonicalIntent option"
  validation_errors :: "string list"
  vessel_ids :: "string list"
  resolved_time_range :: "(datetime \<times> datetime) option"
  dataframe :: "'v dataframe option"
  result :: "response option"
  execution_log :: "string list"
  error :: "string option"
  model_name :: string

definition create_initial_state :: "string \<Rightarrow> message list \<Rightarrow> string \<Rightarrow> 'v AgentState" where
  "create_initial_state query hist model =
     \<lparr>user_query = query, history = hist, canonical_intent = None, validation_errors = [],
      vessel_ids = [], resolved_time_range = None, dataframe = None, result = None,
      execution_log = [], error = None, model_name = model\<rparr>"


section \<open>External collaborators\<close>

text \<open>
  The planner, the position store and the clock are outside the repository.  Each is a
  function of the environment; a call that raises returns \<open>Inl\<close> with the text of the
  exception.  \<open>format_frame\<close> stands for the table, map and summary builders of the
  response builder applied to a non-empty table.
\<close>

record 'v env =
  pylib_of :: pylib
  llm_parse :: "string \<Rightarrow> message list \<Rightarrow> string \<Rightarrow> string + CanonicalIntent"
  db_unique_vessels :: "string + string list"
  db_mmsi_exists :: "string \<Rightarrow> bool"
  parse_relative_time :: "string \<Rightarrow> datetime \<times> datetime"
  db_fetch_trajectory ::
    "string list \<Rightarrow> datetime \<Rightarrow> datetime \<Rightarrow> int \<Rightarrow> string + 'v track_point list"
  format_frame :: "'v dataframe \<Rightarrow> output_format_t \<Rightarrow> string + response"
  str_datetime :: "datetime \<Rightarrow> string"
  loitering_service :: LoiteringService


section \<open>Services called by the stages\<close>

text \<open>\<open>VesselResolver.resolve\<close>: only MMSIs are resolved, and only those in the dataset.\<close>

definition resolve :: "'v env \<Rightarrow> VesselIdentifier list \<Rightarrow> string list" where
  "resolve e vs =
     map (\<lambda>vessel. the (vi_mmsi vessel))
       (filter (\<lambda>vessel. truthy_str (vi_mmsi vessel) \<and> db_mmsi_exists e (the (vi_mmsi vessel)))
          vs)"

text \<open>\<open>TrajectoryService.fetch_raw_trajectory\<close>: subscripting a missing time range raises.\<close>

definition fetch_raw_trajectory ::
  "'v env \<Rightarrow> string list \<Rightarrow> (datetime \<times> datetime) option \<Rightarrow> int \<Rightarrow>
   string + 'v track_point list" where
  "fetch_raw_trajectory e ids time_range row_limit =
     (case time_range of
        None \<Rightarrow> Inl ([CHR 0x27] @ ''NoneType'' @ [CHR 0x27] @ '' object is not subscriptable'')
      | Some (start_dt, end_dt) \<Rightarrow> db_fetch_trajectory e ids start_dt end_dt row_limit)"

text \<open>\<open>ResponseBuilder.build_response\<close>.\<close>

definition build_response ::
  "'v env \<Rightarrow> 'v dataframe option \<Rightarrow> output_format_t \<Rightarrow> int \<Rightarrow> string + response" where
  "build_response e df fmt row_limit =
     (case df of
        None \<Rightarrow>
          Inr \<lparr>resp_format = format_str fmt, resp_data = None,
               resp_message = Some ''No results found'', resp_count = 0\<rparr>
      | Some frame \<Rightarrow>
          if frame_len frame = 0
          then Inr \<lparr>resp_format = format_str fmt, resp_data = None,
                    resp_message = Some ''No results found'', resp_count = 0\<rparr>
          else format_frame e (frame_head row_limit frame) fmt)"


section \<open>Stages of the graph (core/graph.py)\<close>

definition log_append :: "'v AgentState \<Rightarrow> string \<Rightarrow> 'v AgentState" where
  "log_append s entry = s\<lparr>execution_log := execution_log s @ [entry]\<rparr>"

text \<open>The message of the \<open>AttributeError\<close> raised by reading a field of \<open>None\<close>.\<close>

definition none_attr :: "string \<Rightarrow> string" where
  "none_attr field =
     [CHR 0x27] @ ''NoneType'' @ [CHR 0x27] @ '' object has no attribute ''
     @ [CHR 0x27] @ field @ [CHR 0x27]"

definition resolved_refs_str :: "resolved_refs \<Rightarrow> string" where
  "resolved_refs_str r =
     ''{'vessels': ['' @ py_join '', '' (map py_repr_str (ref_vessels r)) @ '']'' @
     '', 'intent': '' @ repr_opt_str (ref_intent r) @
     '', 'has_reference': '' @ (if has_reference r then ''True'' else ''False'') @ ''}''"

definition resolve_references_node :: "MemoryManager \<Rightarrow> 'v AgentState \<Rightarrow> 'v AgentState" where
  "resolve_references_node mem s0 =
     (let s = log_append s0 ''Resolving references'';
          resolved = resolve_references mem (user_query s)
      in if has_reference resolved
         then log_append s (''Resolved references: '' @ resolved_refs_str resolved)
         else s)"

definition parse_intent_node :: "'v env \<Rightarrow> 'v AgentState \<Rightarrow> 'v AgentState" where
  "parse_intent_node e s0 =
     (let s = log_append s0 ''Parsing intent with LLM''
      in case llm_parse e (user_query s) (history s) (model_name s) of
           Inl ex \<Rightarrow> s\<lparr>error := Some (''Intent parsing failed: '' @ ex)\<rparr>
         | Inr intent \<Rightarrow>
             log_append (s\<lparr>canonical_intent := Some intent\<rparr>)
               (''Intent: '' @ domain_str (domain_intent intent) @ ''/''
                @ task_str (task_intent intent)))"

text \<open>
  The validator is the argument \<open>validator\<close>; the graph installs \<open>validate\<close>
  (see \<open>graph_invoke\<close>).
\<close>

definition validate_plan_node ::
  "(CanonicalIntent \<Rightarrow> string list) \<Rightarrow> 'v AgentState \<Rightarrow> 'v AgentState" where
  "validate_plan_node validator s0 =
     (let s = log_append s0 ''Validating plan''
      in case canonical_intent s of
           None \<Rightarrow> s\<lparr>error := Some (''Plan validation failed: '' @ none_attr ''vessel_scope'')\<rparr>
         | Some intent \<Rightarrow>
             (let errors = validator intent;
                  s1 = s\<lparr>validation_errors := errors\<rparr>
              in if errors \<noteq> []
                 then s1\<lparr>error := Some (''Validation failed: '' @ py_join ''; '' errors)\<rparr>
                 else log_append s1 ''Plan validated successfully''))"

definition resolve_time_range :: "'v env \<Rightarrow> CanonicalIntent \<Rightarrow> 'v AgentState \<Rightarrow> 'v AgentState" where
  "resolve_time_range e intent s =
     (let tc = time_constraint intent
      in if tc_mode tc = Relative
         then (case tc_relative tc of
                 None \<Rightarrow> s\<lparr>error := Some (''Vessel resolution failed: '' @ none_attr ''lower'')\<rparr>
               | Some rel \<Rightarrow>
                   (let (start_dt, end_dt) = parse_relative_time e rel
                    in log_append (s\<lparr>resolved_time_range := Some (start_dt, end_dt)\<rparr>)
                         (''Time range: '' @ str_datetime e start_dt @ '' to ''
                          @ str_datetime e end_dt)))
         else (case tc_start tc of
                 None \<Rightarrow> s\<lparr>error := Some (''Vessel resolution failed: ''
                              @ ''fromisoformat: argument must be str'')\<rparr>
               | Some a \<Rightarrow>
                   (case fromisoformat (pylib_of e) a of
                      None \<Rightarrow> s\<lparr>error := Some (''Vessel resolution failed: ''
                                   @ ''Invalid isoformat string: '' @ py_repr_str a)\<rparr>
                    | Some start_dt \<Rightarrow>
                        (case tc_end tc of
                           None \<Rightarrow> s\<lparr>error := Some (''Vessel resolution failed: ''
                                        @ ''fromisoformat: argument must be str'')\<rparr>
                         | Some b \<Rightarrow>
                             (case fromisoformat (pylib_of e) b of
                                None \<Rightarrow> s\<lparr>error := Some (''Vessel resolution failed: ''
                                             @ ''Invalid isoformat string: ''
                                             @ py_repr_str b)\<rparr>
                              | Some end_dt \<Rightarrow>
                                  s\<lparr>resolved_time_range := Some (start_dt, end_dt)\<rparr>)))))"

definition resolve_vessels_node :: "'v env \<Rightarrow> 'v AgentState \<Rightarrow> 'v AgentState" where
  "resolve_vessels_node e s0 =
     (let s = log_append s0 ''Resolving vessel identifiers''
      in case canonical_intent s of
           None \<Rightarrow> s\<lparr>error := Some (''Vessel resolution failed: '' @ none_attr ''vessel_scope'')\<rparr>
         | Some intent \<Rightarrow>
             (case (if vessel_scope intent = All_vessels then db_unique_vessels e
                    else Inr (resolve e (vessels intent))) of
                Inl ex \<Rightarrow> s\<lparr>error := Some (''Vessel resolution failed: '' @ ex)\<rparr>
              | Inr ids \<Rightarrow>
                  resolve_time_range e intent
                    (log_append (s\<lparr>vessel_ids := ids\<rparr>)
                       (''Resolved '' @ str_nat (length ids) @ '' vessel(s)''))))"

definition trajectory_pipeline_node :: "'v env \<Rightarrow> 'v AgentState \<Rightarrow> 'v AgentState" where
  "trajectory_pipeline_node e s0 =
     (let s = log_append s0 ''Fetching trajectory data''
      in case canonical_intent s of
           None \<Rightarrow> s\<lparr>error := Some (''Trajectory fetch failed: '' @ none_attr ''output'')\<rparr>
         | Some intent \<Rightarrow>
             (case fetch_raw_trajectory e (vessel_ids s) (resolved_time_range s)
                     (out_limit (output_config intent)) of
                Inl ex \<Rightarrow> s\<lparr>error := Some (''Trajectory fetch failed: '' @ ex)\<rparr>
              | Inr df \<Rightarrow>
                  log_append (s\<lparr>dataframe := Some (Trajectory_frame df)\<rparr>)
                    (''Fetched '' @ str_nat (length df) @ '' trajectory points'')))"

definition loitering_pipeline_node ::
  "('v::linorder) env \<Rightarrow> 'v AgentState \<Rightarrow> 'v AgentState" where
  "loitering_pipeline_node e s0 =
     (let s = log_append s0 ''Detecting loitering''
      in case canonical_intent s of
           None \<Rightarrow> s\<lparr>error := Some (''Loitering detection failed: '' @ none_attr ''output'')\<rparr>
         | Some intent \<Rightarrow>
             (case fetch_raw_trajectory e (vessel_ids s) (resolved_time_range s)
                     (out_limit (output_config intent) * 10) of
                Inl ex \<Rightarrow> s\<lparr>error := Some (''Loitering detection failed: '' @ ex)\<rparr>
              | Inr df \<Rightarrow>
                  (let loitering_df =
                         detect_loitering (loitering_service e) df None None
                           (Some (spatial_constraint intent))
                   in log_append (s\<lparr>dataframe := Some (Loitering_frame loitering_df)\<rparr>)
                        (''Detected '' @ str_nat (length loitering_df) @ '' loitering events''))))"

definition response_builder_node ::
  "'v env \<Rightarrow> 'v AgentState \<times> MemoryManager \<Rightarrow> 'v AgentState \<times> MemoryManager" where
  "response_builder_node e cfg =
     (let s = log_append (fst cfg) ''Building response''; mem = snd cfg
      in case canonical_intent s of
           None \<Rightarrow> (s\<lparr>error := Some (''Response building failed: '' @ none_attr ''output'')\<rparr>, mem)
         | Some intent \<Rightarrow>
             (case build_response e (dataframe s) (out_format (output_config intent))
                     (out_limit (output_config intent)) of
                Inl ex \<Rightarrow> (s\<lparr>error := Some (''Response building failed: '' @ ex)\<rparr>, mem)
              | Inr resp \<Rightarrow>
                  (log_append (s\<lparr>result := Some resp\<rparr>) ''Response built successfully'',
                   update_intent_context
                     (update_vessel_context
                        (add_message
                           (add_message mem ''user'' (user_query s))
                           ''assistant''
                           (case resp_message resp of None \<Rightarrow> [] | Some msg \<Rightarrow> msg))
                        (vessel_ids s))
                     (domain_str (domain_intent intent)))))"


section \<open>Conditional routing and graph construction (core/graph.py)\<close>

definition should_continue_after_validation :: "'v AgentState \<Rightarrow> string" where
  "should_continue_after_validation s =
     (if truthy_str (error s) \<or> validation_errors s \<noteq> [] then ''error'' else ''continue'')"

definition route_of_domain :: "domain_intent_t \<Rightarrow> string" where
  "route_of_domain d =
     (if d \<in> set [Trajectory, Listing] then ''trajectory''
      else if d = Loitering then ''loitering''
      else if d = Prediction then ''trajectory''
      else ''trajectory'')"

text \<open>
  \<open>route_by_domain\<close> reads the domain of the resolved intent; \<open>None\<close> stands for the
  \<open>AttributeError\<close> raised when the state holds no intent.
\<close>

definition route_by_domain :: "'v AgentState \<Rightarrow> string option" where
  "route_by_domain s =
     (case canonical_intent s of
        None \<Rightarrow> None
      | Some intent \<Rightarrow> Some (route_of_domain (domain_intent intent)))"

text \<open>
  The nodes of the graph, with \<open>END\<close>; \<open>Raised\<close> marks an exception that leaves
  \<open>graph.invoke\<close>.
\<close>

datatype node =
  Resolve_references | Parse_intent | Validate_plan | Resolve_vessels
| Trajectory_pipeline | Loitering_pipeline | Response_builder | END | Raised

text \<open>The edges added by \<open>create_orchestration_graph\<close>.\<close>

fun next_node :: "node \<Rightarrow> 'v AgentState \<Rightarrow> node" where
  "next_node Resolve_references s = Parse_intent"
| "next_node Parse_intent s = Validate_plan"
| "next_node Validate_plan s =
     (if should_continue_after_validation s = ''error'' then END else Resolve_vessels)"
| "next_node Resolve_vessels s =
     (case route_by_domain s of
        None \<Rightarrow> Raised
      | Some r \<Rightarrow>
          if r = ''trajectory'' then Trajectory_pipeline
          else if r = ''loitering'' then Loitering_pipeline
          else Raised)"
| "next_node Trajectory_pipeline s = Response_builder"
| "next_node Loitering_pipeline s = Response_builder"
| "next_node Response_builder s = END"
| "next_node END s = END"
| "next_node Raised s = Raised"

fun run_node ::
  "(CanonicalIntent \<Rightarrow> string list) \<Rightarrow> ('v::linorder) env \<Rightarrow> node \<Rightarrow>
   'v AgentState \<times> MemoryManager \<Rightarrow> 'v AgentState \<times> MemoryManager" where
  "run_node validator e Resolve_references (s, mem) = (resolve_references_node mem s, mem)"
| "run_node validator e Parse_intent (s, mem) = (parse_intent_node e s, mem)"
| "run_node validator e Validate_plan (s, mem) = (validate_plan_node validator s, mem)"
| "run_node validator e Resolve_vessels (s, mem) = (resolve_vessels_node e s, mem)"
| "run_node validator e Trajectory_pipeline (s, mem) = (trajectory_pipeline_node e s, mem)"
| "run_node validator e Loitering_pipeline (s, mem) = (loitering_pipeline_node e s, mem)"
| "run_node validator e Response_builder (s, mem) = response_builder_node e (s, mem)"
| "run_node validator e END (s, mem) = (s, mem)"
| "run_node validator e Raised (s, mem) = (s, mem)"

fun rank :: "node \<Rightarrow> nat" where
  "rank Resolve_references = 6"
| "rank Parse_intent = 5"
| "rank Validate_plan = 4"
| "rank Resolve_vessels = 3"
| "rank Trajectory_pipeline = 2"
| "rank Loitering_pipeline = 2"
| "rank Response_builder = 1"
| "rank END = 0"
| "rank Raised = 0"

text \<open>
  A run from a node: the list of the nodes executed, each with the state and the memory
  it leaves behind.
\<close>

function run_from ::
  "(CanonicalIntent \<Rightarrow> string list) \<Rightarrow> ('v::linorder) env \<Rightarrow> node \<Rightarrow>
   'v AgentState \<times> MemoryManager \<Rightarrow> (node \<times> 'v AgentState \<times> MemoryManager) list" where
  "run_from validator e n cfg =
     (if n = END \<or> n = Raised then []
      else (let cfg' = run_node validator e n cfg
            in (n, cfg') # run_from validator e (next_node n (fst cfg')) cfg'))"
  by pat_completeness auto
termination
proof (relation "measure (\<lambda>(validator, e, n, cfg). rank n)")
  show "wf (measure (\<lambda>(validator, e, n, cfg). rank n))" by simp
next
  fix validator :: "CanonicalIntent \<Rightarrow> string list" and e :: "'v env" and n :: node
    and cfg cfg' :: "'v AgentState \<times> MemoryManager"
  assume "\<not> (n = END \<or> n = Raised)"
  then have "rank (next_node n (fst cfg')) < rank n"
    by (cases n) (auto split: option.splits)
  then show "((validator, e, next_node n (fst cfg'), cfg'), (validator, e, n, cfg))
               \<in> measure (\<lambda>(validator, e, n, cfg). rank n)"
    by simp
qed

declare run_from.simps [simp del]

text \<open>
  \<open>graph.invoke(initial_state)\<close> with the services of \<open>_initialize_services\<close>: the plan
  validator is \<open>PlanValidator.validate\<close>.
\<close>

definition graph_invoke ::
  "('v::linorder) env \<Rightarrow> MemoryManager \<Rightarrow> 'v AgentState \<Rightarrow>
   (node \<times> 'v AgentState \<times> MemoryManager) list" where
  "graph_invoke e mem s0 = run_from (validate (pylib_of e)) e Resolve_references (s0, mem)"

definition final_state :: "(node \<times> 'v AgentState \<times> MemoryManager) list \<Rightarrow> 'v AgentState" where
  "final_state tr = fst (snd (last tr))"

definition final_memory :: "(node \<times> 'v AgentState \<times> MemoryManager) list \<Rightarrow> MemoryManager" where
  "final_memory tr = snd (snd (last tr))"

definition analytical :: "node \<Rightarrow> bool" where
  "analytical n \<longleftrightarrow> n = Trajectory_pipeline \<or> n = Loitering_pipeline"

definition state_at :: "(node \<times> 'v AgentState \<times> MemoryManager) list \<Rightarrow> nat \<Rightarrow> 'v AgentState" where
  "state_at tr i = fst (snd (tr ! i))"

definition node_at :: "(node \<times> 'v AgentState \<times> MemoryManager) list \<Rightarrow> nat \<Rightarrow> node" where
  "node_at tr i = fst (tr ! i)"

definition memory_at :: "(node \<times> 'v AgentState \<times> MemoryManager) list \<Rightarrow> nat \<Rightarrow> MemoryManager" where
  "memory_at tr i = snd (snd (tr ! i))"

section \<open>Sample inputs\<close>

definition sample_pylib :: pylib where
  "sample_pylib = \<lparr>fromisoformat = (\<lambda>s. None), float_repr = (\<lambda>r. ''12.0'')\<rparr>"

text \<open>An environment whose planner fails, and one whose planner returns an intent.\<close>

definition sample_env :: "(string + CanonicalIntent) \<Rightarrow> nat env" where
  "sample_env planned =
     \<lparr>pylib_of = sample_pylib,
      llm_parse = (\<lambda>query hist model. planned),
      db_unique_vessels = Inr [''111111111''],
      db_mmsi_exists = (\<lambda>m. True),
      parse_relative_time = (\<lambda>rel. (Naive 0, Naive 21600)),
      db_fetch_trajectory = (\<lambda>ids start_dt end_dt n. Inl ''IO Error: store unavailable''),
      format_frame = (\<lambda>frame fmt. Inl ''unused''),
      str_datetime = (\<lambda>d. ''2020-01-05 00:00:00''),
      loitering_service = LoiteringService_init settings\<rparr>"

definition failing_planner_env :: "nat env" where
  "failing_planner_env = sample_env (Inl ''Intent parsing error: LLM returned empty response'')"

definition planning_env :: "nat env" where
  "planning_env = sample_env (Inr example_intent)"

definition sample_memory :: MemoryManager where
  "sample_memory =
     update_intent_context (update_vessel_context (MemoryManager_init 10) [''111111111''])
       ''trajectory''"

definition loitering_intent :: CanonicalIntent where
  "loitering_intent =
     example_intent\<lparr>domain_intent := Loitering, task_intent := Detect,
                    vessel_scope := All_vessels, vessels := []\<rparr>"

text \<open>
  Track tables: a vessel with five slow points one hour apart (a span of four hours), a
  vessel in transit whose last point is at exactly 2 knots, and the slow vessel with the
  point at 7200 s left out, which leaves a two-hour gap.
\<close>

definition pt :: "nat \<Rightarrow> rat \<Rightarrow> rat \<Rightarrow> nat track_point" where
  "pt m t v = \<lparr>timestamp = t, mmsi = m, latitude = 10, longitude = 20, sog = v, cog = 0, interpolated = False\<rparr>"

definition loiter_track :: "nat track_point list" where
  "loiter_track = [pt 7 0 (1/2), pt 7 3600 (1/2), pt 7 7200 1, pt 7 10800 (3/2), pt 7 14400 (1/2)]"

definition transit_track :: "nat track_point list" where
  "transit_track = [pt 9 0 15, pt 9 3600 15, pt 9 14400 2]"

text \<open>
  A mixed table: the slow rows of vessel 7 interleaved with a row of vessel 7 at exactly
  2 knots, a row of vessel 7 at 15 knots, and the rows of vessel 9 in transit.
\<close>

definition mixed_track :: "nat track_point list" where
  "mixed_track =
     [pt 7 0 (1/2), pt 9 0 15, pt 7 1800 2, pt 7 3600 (1/2), pt 9 3600 15, pt 7 5400 15,
      pt 7 7200 1, pt 7 10800 (3/2), pt 7 14400 (1/2), pt 9 14400 2]"

definition gapped_track :: "nat track_point list" where
  "gapped_track = [pt 7 0 (1/2), pt 7 3600 (1/2), pt 7 10800 (3/2), pt 7 14400 (1/2)]"
section \<open>Facts about the primitives\<close>

lemma startswith_iff: "startswith s p \<longleftrightarrow> (\<exists>b. s = p @ b)"
  by (induction s p rule: startswith.induct) auto

lemma str_contains_iff: "str_contains s p \<longleftrightarrow> (\<exists>a b. s = a @ p @ b)"
proof (induction s)
  case Nil
  then show ?case by auto
next
  case (Cons c cs)
  have "(\<exists>a b. c # cs = a @ p @ b) \<longleftrightarrow>
        (\<exists>b. c # cs = p @ b) \<or> (\<exists>a' b. cs = a' @ p @ b)"
  proof
    assume "\<exists>a b. c # cs = a @ p @ b"
    then obtain a b where ab: "c # cs = a @ p @ b" by blast
    show "(\<exists>b. c # cs = p @ b) \<or> (\<exists>a' b. cs = a' @ p @ b)"
    proof (cases a)
      case Nil
      with ab show ?thesis by auto
    next
      case (Cons x a')
      with ab have "cs = a' @ p @ b" by simp
      then show ?thesis by blast
    qed
  next
    assume "(\<exists>b. c # cs = p @ b) \<or> (\<exists>a' b. cs = a' @ p @ b)"
    then show "\<exists>a b. c # cs = a @ p @ b"
    proof
      assume "\<exists>b. c # cs = p @ b"
      then obtain b where "c # cs = [] @ p @ b" by auto
      then show ?thesis by blast
    next
      assume "\<exists>a' b. cs = a' @ p @ b"
      then obtain a' b where "c # cs = (c # a') @ p @ b" by auto
      then show ?thesis by blast
    qed
  qed
  with Cons show ?case by (simp add: startswith_iff)
qed

section \<open>Conversational memory: bounded transcript\<close>

lemma length_lastn [simp]: "length (lastn n xs) = min n (length xs)"
  by (auto simp: lastn_def)

lemma lastn_append: "lastn n (lastn n xs @ ys) = lastn n (xs @ ys)"
proof (cases "length xs \<le> n")
  case True
  then show ?thesis by (simp add: lastn_def)
next
  case False
  then have "lastn n xs @ ys = drop (length xs - n) (xs @ ys)"
    by (simp add: lastn_def)
  moreover have "length (drop (length xs - n) (xs @ ys)) - n + (length xs - n)
                   = length (xs @ ys) - n"
    using False by simp
  ultimately show ?thesis
    by (simp only: lastn_def drop_drop)
qed

lemma add_message_history:
  assumes "0 < max_history self"
  shows "conversation_history (add_message self r c) =
         lastn (nat (max_history self)) (conversation_history self @ [as_message (r, c)])"
  using assms
  by (auto simp: add_message_def as_message_def Let_def py_slice_from_def lastn_def
                 nat_diff_distrib' nat_add_distrib)

lemma add_message_max [simp]: "max_history (add_message self r c) = max_history self"
  by (simp add: add_message_def Let_def)

lemma add_message_context [simp]:
  "last_mentioned_vessels (add_message self r c) = last_mentioned_vessels self"
  "last_intent (add_message self r c) = last_intent self"
  by (simp_all add: add_message_def Let_def)

lemma add_messages_max [simp]: "max_history (add_messages self calls) = max_history self"
  by (induction self calls rule: add_messages.induct) auto

lemma add_messages_history:
  assumes "0 < max_history self"
  shows "conversation_history (add_messages self calls) =
         (if calls = [] then conversation_history self
          else lastn (nat (max_history self)) (conversation_history self @ map as_message calls))"
  using assms
proof (induction self calls rule: add_messages.induct)
  case (1 self)
  then show ?case by simp
next
  case (2 self r c calls)
  let ?s = "add_message self r c"
  have mx: "0 < max_history ?s" using "2.prems" by simp
  show ?case
  proof (cases "calls = []")
    case True
    then show ?thesis using "2.prems" by (simp add: add_message_history)
  next
    case False
    then have "conversation_history (add_messages ?s calls) =
        lastn (nat (max_history self)) (conversation_history ?s @ map as_message calls)"
      using "2.IH"[OF mx] by simp
    also have "\<dots> = lastn (nat (max_history self))
                         (conversation_history self @ map as_message ((r, c) # calls))"
      using "2.prems"
        lastn_append[of "nat (max_history self)"
                        "conversation_history self @ [as_message (r, c)]" "map as_message calls"]
      by (simp add: add_message_history)
    finally show ?thesis by simp
  qed
qed

text \<open>
  Claim C6, as stated, fails at two concrete inputs.  With a configured maximum of 0 the
  slice \<open>history[-0:]\<close> is the whole list, so one append leaves a transcript of length 1,
  above the maximum.  With a maximum of 2 and three appends \<open>a, b, c\<close> the transcript is
  \<open>[b, c]\<close>: the oldest retained entry is \<open>b\<close>, the second most recent entry, whereas
  the third (max+1-th) most recent entry is \<open>a\<close>, which was evicted.
\<close>

theorem add_message_bound_counterexample:
  "\<not> int (length (conversation_history (add_message (MemoryManager_init 0) ''user'' ''a''))) \<le> 0
   \<and> conversation_history
        (add_messages (MemoryManager_init 2)
           [(''user'', ''a''), (''assistant'', ''b''), (''user'', ''c'')])
       = [as_message (''assistant'', ''b''), as_message (''user'', ''c'')]
   \<and> rev (map as_message [(''user'', ''a''), (''assistant'', ''b''), (''user'', ''c'')]) ! 2
       = as_message (''user'', ''a'')
   \<and> hd (conversation_history
           (add_messages (MemoryManager_init 2)
              [(''user'', ''a''), (''assistant'', ''b''), (''user'', ''c'')]))
       \<noteq> rev (map as_message [(''user'', ''a''), (''assistant'', ''b''), (''user'', ''c'')]) ! 2"
  by (simp add: add_message_def MemoryManager_init_def py_slice_from_def as_message_def Let_def)

text \<open>
  Claim C6, amended: for a positive configured maximum \<open>mx\<close> and every sequence of append
  calls on a fresh memory, the transcript is exactly the last \<open>mx\<close> appended entries in
  their original order (eviction is from the front); its length never exceeds \<open>mx\<close>; and
  once more than \<open>mx\<close> entries have been appended the length is exactly \<open>mx\<close> and the
  oldest retained entry is the \<open>mx\<close>-th most recent appended entry.
\<close>

theorem add_messages_bounded_fifo:
  assumes "0 < mx"
  shows "conversation_history (add_messages (MemoryManager_init mx) calls)
           = lastn (nat mx) (map as_message calls)
       \<and> int (length (conversation_history (add_messages (MemoryManager_init mx) calls))) \<le> mx
       \<and> (mx < int (length calls) \<longrightarrow>
            int (length (conversation_history (add_messages (MemoryManager_init mx) calls))) = mx
          \<and> hd (conversation_history (add_messages (MemoryManager_init mx) calls))
              = rev (map as_message calls) ! (nat mx - 1))"
proof -
  let ?h = "conversation_history (add_messages (MemoryManager_init mx) calls)"
  have h: "?h = lastn (nat mx) (map as_message calls)"
    using add_messages_history[of "MemoryManager_init mx" calls] assms
    by (simp add: MemoryManager_init_def lastn_def)
  have len: "int (length ?h) \<le> mx"
    using assms by (simp add: h)
  have full: "int (length ?h) = mx \<and> hd ?h = rev (map as_message calls) ! (nat mx - 1)"
    if big: "mx < int (length calls)"
  proof -
    have "hd (lastn (nat mx) (map as_message calls))
            = map as_message calls ! (length calls - nat mx)"
      using big assms by (simp add: lastn_def hd_drop_conv_nth)
    also have "\<dots> = rev (map as_message calls) ! (nat mx - 1)"
      using big assms by (simp add: rev_nth)
    finally show ?thesis using big assms by (simp add: h)
  qed
  from h len full show ?thesis by blast
qed

text \<open>Witness for the amended C6: a maximum of 2 and three appended entries.\<close>

theorem add_messages_bounded_fifo_witness:
  "(0::int) < 2
   \<and> conversation_history
        (add_messages (MemoryManager_init 2)
           [(''user'', ''a''), (''assistant'', ''b''), (''user'', ''c'')])
       = [as_message (''assistant'', ''b''), as_message (''user'', ''c'')]
   \<and> hd (conversation_history
           (add_messages (MemoryManager_init 2)
              [(''user'', ''a''), (''assistant'', ''b''), (''user'', ''c'')]))
       = as_message (''assistant'', ''b'')"
  using add_messages_bounded_fifo
          [of 2 "[(''user'', ''a''), (''assistant'', ''b''), (''user'', ''c'')]"]
  by (simp add: lastn_def)


section \<open>Conversational memory: reference resolution\<close>

lemma list_ex_contains:
  "list_ex (\<lambda>p. str_contains s p) ps \<longleftrightarrow> (\<exists>p\<in>set ps. \<exists>a b. s = a @ p @ b)"
  by (simp add: list_ex_iff str_contains_iff)

text \<open>
  Claim C7: for every memory and query, \<open>resolve_references\<close> returns the last-referenced
  vessel list exactly when some pronoun marker occurs in the lower-cased query and that
  list is non-empty; independently it returns the last domain when a continuation marker
  occurs and a last domain is set; \<open>has_reference\<close> is true exactly when one of the two
  fires, and otherwise the result is empty.  With prior vessel context \<open>111111111\<close> the
  query "show its trajectory" resolves to that list with \<open>has_reference = True\<close>; on a
  fresh memory the same query gives the empty result with \<open>has_reference = False\<close>.
\<close>

theorem resolve_references_markers:
  "resolve_references self query =
     \<lparr>ref_vessels =
        (if (\<exists>p\<in>set pronouns. \<exists>a b. lower query = a @ p @ b)
            \<and> last_mentioned_vessels self \<noteq> []
         then last_mentioned_vessels self else []),
      ref_intent =
        (if (\<exists>p\<in>set intent_refs. \<exists>a b. lower query = a @ p @ b)
            \<and> truthy_str (last_intent self)
         then last_intent self else None),
      has_reference =
        (((\<exists>p\<in>set pronouns. \<exists>a b. lower query = a @ p @ b)
            \<and> last_mentioned_vessels self \<noteq> [])
         \<or> ((\<exists>p\<in>set intent_refs. \<exists>a b. lower query = a @ p @ b)
            \<and> truthy_str (last_intent self)))\<rparr>
   \<and> resolve_references (update_vessel_context (MemoryManager_init mx) [''111111111''])
         ''show its trajectory''
       = \<lparr>ref_vessels = [''111111111''], ref_intent = None, has_reference = True\<rparr>
   \<and> resolve_references (MemoryManager_init mx) ''show its trajectory''
       = \<lparr>ref_vessels = [], ref_intent = None, has_reference = False\<rparr>"
proof (intro conjI)
  show "resolve_references self query =
     \<lparr>ref_vessels =
        (if (\<exists>p\<in>set pronouns. \<exists>a b. lower query = a @ p @ b)
            \<and> last_mentioned_vessels self \<noteq> []
         then last_mentioned_vessels self else []),
      ref_intent =
        (if (\<exists>p\<in>set intent_refs. \<exists>a b. lower query = a @ p @ b)
            \<and> truthy_str (last_intent self)
         then last_intent self else None),
      has_reference =
        (((\<exists>p\<in>set pronouns. \<exists>a b. lower query = a @ p @ b)
            \<and> last_mentioned_vessels self \<noteq> [])
         \<or> ((\<exists>p\<in>set intent_refs. \<exists>a b. lower query = a @ p @ b)
            \<and> truthy_str (last_intent self)))\<rparr>"
    unfolding resolve_references_def Let_def list_ex_contains by simp
  show "resolve_references (update_vessel_context (MemoryManager_init mx) [''111111111''])
         ''show its trajectory''
       = \<lparr>ref_vessels = [''111111111''], ref_intent = None, has_reference = True\<rparr>"
    by (simp add: resolve_references_def update_vessel_context_def MemoryManager_init_def
        pronouns_def intent_refs_def lower_def lower_char_def upper_chars_def lower_chars_def)
  show "resolve_references (MemoryManager_init mx) ''show its trajectory''
       = \<lparr>ref_vessels = [], ref_intent = None, has_reference = False\<rparr>"
    by (simp add: resolve_references_def MemoryManager_init_def)
qed

text \<open>
  Witness for C7: a memory holding both a vessel list and a domain, and an upper-case
  query containing a pronoun marker and a continuation marker; both resolutions fire.
\<close>

theorem resolve_references_markers_witness:
  "resolve_references
     (update_intent_context
        (update_vessel_context (MemoryManager_init 10) [''111111111'']) ''loitering'')
     ''Show ITS track again''
   = \<lparr>ref_vessels = [''111111111''], ref_intent = Some ''loitering'', has_reference = True\<rparr>"
proof -
  have p: "\<exists>p\<in>set pronouns. \<exists>a b. lower ''Show ITS track again'' = a @ p @ b"
    unfolding list_ex_contains[symmetric]
    by (simp add: pronouns_def lower_def lower_char_def upper_chars_def lower_chars_def)
  have r: "\<exists>p\<in>set intent_refs. \<exists>a b. lower ''Show ITS track again'' = a @ p @ b"
    unfolding list_ex_contains[symmetric]
    by (simp add: intent_refs_def lower_def lower_char_def upper_chars_def lower_chars_def)
  show ?thesis
    using p r
      resolve_references_markers
        [of "update_intent_context
               (update_vessel_context (MemoryManager_init 10) [''111111111'']) ''loitering''"
            "''Show ITS track again''" 10]
    by (simp add: update_intent_context_def update_vessel_context_def MemoryManager_init_def)
qed

section \<open>Plan validator: the denylist scan\<close>

lemma str_contains_appendI1: "str_contains a p \<Longrightarrow> str_contains (a @ b) p"
proof -
  assume "str_contains a p"
  then obtain x y where "a = x @ p @ y" unfolding str_contains_iff by blast
  then have "a @ b = x @ p @ (y @ b)" by simp
  then show ?thesis unfolding str_contains_iff by blast
qed

lemma str_contains_appendI2: "str_contains b p \<Longrightarrow> str_contains (a @ b) p"
proof -
  assume "str_contains b p"
  then obtain x y where "b = x @ p @ y" unfolding str_contains_iff by blast
  then have "a @ b = (a @ x) @ p @ y" by simp
  then show ?thesis unfolding str_contains_iff by blast
qed

text \<open>
  The serialized intent always holds the key \<open>'execution_mode'\<close>, and with it the
  denylist token \<open>exec\<close>.
\<close>

lemma to_dict_str_exec: "str_contains (to_dict_str py intent) ''exec''"
proof -
  have "str_contains '', 'execution_mode': '' ''exec''" by simp
  then show ?thesis
    unfolding to_dict_str_def
    by (intro str_contains_appendI2 str_contains_appendI1)
qed

lemma validate_flags_exec: "''Unsafe keyword detected: exec'' \<in> set (validate py intent)"
  using to_dict_str_exec[of py intent]
  by (simp add: validate_def safety_errors_def unsafe_keywords_def Let_def)

lemma validate_nonempty: "validate py intent \<noteq> []"
  using validate_flags_exec[of py intent] by auto

lemma validate_example_intent:
  "validate py example_intent = [''Unsafe keyword detected: exec'']"
  by (simp add: validate_def scope_errors_def mmsi_errors_def time_errors_def spatial_errors_def
      execution_errors_def compatibility_errors_def safety_errors_def unsafe_keywords_def
      example_intent_def validate_mmsi_def strip_def is_space_def is_digit_def
      to_dict_str_def VesselIdentifier_str_def TimeConstraint_str_def SpatialConstraint_str_def
      ExecutionMode_str_def OutputConfig_str_def repr_opt_float_def repr_opt_str_def
      py_repr_str_def py_repr_char_def str_int_def str_nat.simps[of 50] str_nat.simps[of 5]
      Let_def)

text \<open>
  Claim C2 says that some intent satisfying all rules validates to the empty list.  On
  the code no intent does: the example intent of the schema, which satisfies rules 1 to 6
  and holds no unsafe string, is rejected with the single violation
  \<open>Unsafe keyword detected: exec\<close>, and every intent whatsoever receives that
  violation, because the scan runs over the serialized field names as well.  (The
  validator is a function of its argument, so two calls on one intent agree.)
\<close>

theorem validate_rejects_every_intent:
  "validate py example_intent = [''Unsafe keyword detected: exec'']
   \<and> ''Unsafe keyword detected: exec'' \<in> set (validate py intent)
   \<and> validate py intent \<noteq> []
   \<and> \<not> is_valid py intent"
  using validate_example_intent[of py] validate_flags_exec[of py intent]
    validate_nonempty[of py intent]
  by (simp add: is_valid_def)

section \<open>Stage graph: every run stops at the validation edge\<close>

lemma validate_plan_node_sets_error:
  "truthy_str (error (validate_plan_node (validate py) s))"
  using validate_nonempty[of py]
  by (auto simp: validate_plan_node_def log_append_def Let_def none_attr_def
           split: option.splits)

lemma validate_plan_node_result [simp]:
  "result (validate_plan_node V s) = result s"
  by (auto simp: validate_plan_node_def log_append_def Let_def split: option.splits)

lemma parse_intent_node_result [simp]:
  "result (parse_intent_node e s) = result s"
  by (auto simp: parse_intent_node_def log_append_def Let_def split: sum.splits)

lemma resolve_references_node_result [simp]:
  "result (resolve_references_node mem s) = result s"
  by (auto simp: resolve_references_node_def log_append_def Let_def)

text \<open>
  Since \<open>validate\<close> never returns the empty list, \<open>validate_plan_node\<close> always sets
  \<open>error\<close>, the first conditional edge always leads to \<open>END\<close>, and a run consists of
  exactly the first three stages.
\<close>

lemma graph_invoke_trace:
  "graph_invoke e mem s0 =
     [(Resolve_references, resolve_references_node mem s0, mem),
      (Parse_intent, parse_intent_node e (resolve_references_node mem s0), mem),
      (Validate_plan,
       validate_plan_node (validate (pylib_of e))
         (parse_intent_node e (resolve_references_node mem s0)), mem)]"
proof -
  let ?V = "validate (pylib_of e)"
  let ?s1 = "resolve_references_node mem s0"
  let ?s2 = "parse_intent_node e ?s1"
  let ?s3 = "validate_plan_node ?V ?s2"
  have stop: "next_node Validate_plan ?s3 = END"
    using validate_plan_node_sets_error[of "pylib_of e" ?s2]
    by (simp add: should_continue_after_validation_def)
  have "run_from ?V e Validate_plan (?s2, mem) = [(Validate_plan, ?s3, mem)]"
    using stop
    by (simp add: run_from.simps[of _ _ Validate_plan] run_from.simps[of _ _ END] Let_def)
  then have "run_from ?V e Parse_intent (?s1, mem)
               = [(Parse_intent, ?s2, mem), (Validate_plan, ?s3, mem)]"
    by (simp add: run_from.simps[of _ _ Parse_intent] Let_def)
  then have "run_from ?V e Resolve_references (s0, mem) =
      [(Resolve_references, ?s1, mem), (Parse_intent, ?s2, mem), (Validate_plan, ?s3, mem)]"
    by (simp add: run_from.simps[of _ _ Resolve_references] Let_def)
  then show ?thesis by (simp add: graph_invoke_def)
qed

lemma graph_invoke_length: "length (graph_invoke e mem s0) = 3"
  by (simp add: graph_invoke_trace)

lemma graph_invoke_results:
  assumes "j < length (graph_invoke e mem s0)"
  shows "result (state_at (graph_invoke e mem s0) j) = result s0"
    and "node_at (graph_invoke e mem s0) j \<in> {Resolve_references, Parse_intent, Validate_plan}"
    and "0 < j \<Longrightarrow> node_at (graph_invoke e mem s0) j \<in> {Parse_intent, Validate_plan}"
    and "memory_at (graph_invoke e mem s0) j = mem"
proof -
  from assms have "j = 0 \<or> j = 1 \<or> j = 2"
    by (auto simp: graph_invoke_length)
  then show "result (state_at (graph_invoke e mem s0) j) = result s0"
    and "node_at (graph_invoke e mem s0) j \<in> {Resolve_references, Parse_intent, Validate_plan}"
    and "0 < j \<Longrightarrow> node_at (graph_invoke e mem s0) j \<in> {Parse_intent, Validate_plan}"
    and "memory_at (graph_invoke e mem s0) j = mem"
    by (auto simp: graph_invoke_trace state_at_def node_at_def memory_at_def)
qed

lemma truthy_str_not_None: "truthy_str x \<Longrightarrow> x \<noteq> None"
  by (cases x) simp_all

lemma graph_invoke_final:
  "final_state (graph_invoke e mem s0)
     = validate_plan_node (validate (pylib_of e))
         (parse_intent_node e (resolve_references_node mem s0))"
  "final_memory (graph_invoke e mem s0) = mem"
  by (simp_all add: graph_invoke_trace final_state_def final_memory_def)

lemma graph_invoke_error: "error (final_state (graph_invoke e mem s0)) \<noteq> None"
  by (simp add: graph_invoke_final truthy_str_not_None validate_plan_node_sets_error)

text \<open>
  Claim C1: in every run of the graph from a fresh run state, once \<open>error\<close> is set after
  some stage, \<open>result\<close> is null after that stage and after every later stage (so no stage
  leaves both set), no stage executed later is the trajectory or the loitering stage,
  the only stages executed later are those up to the validation decision point, and
  the edge taken at that point leads to \<open>END\<close>.
\<close>

theorem error_keeps_result_null:
  fixes e :: "('v::linorder) env" and mem :: MemoryManager
    and query :: string and hist :: "message list" and model :: string
  defines "tr \<equiv> graph_invoke e mem (create_initial_state query hist model)"
  assumes "i \<le> j" and "j < length tr" and "error (state_at tr i) \<noteq> None"
  shows "result (state_at tr j) = None
       \<and> (i < j \<longrightarrow> \<not> analytical (node_at tr j)
                  \<and> node_at tr j \<in> {Parse_intent, Validate_plan})
       \<and> next_node Validate_plan (final_state tr) = END"
proof -
  have r: "result (state_at tr j) = None"
    using graph_invoke_results(1)[of j e mem "create_initial_state query hist model"] assms(3)
    by (simp add: tr_def create_initial_state_def)
  have n: "\<not> analytical (node_at tr j) \<and> node_at tr j \<in> {Parse_intent, Validate_plan}" if "i < j"
    using graph_invoke_results(3)[of j e mem "create_initial_state query hist model"] assms(3) that
    by (auto simp: tr_def analytical_def)
  have "truthy_str (error (final_state tr))"
    by (simp add: tr_def graph_invoke_final validate_plan_node_sets_error)
  then have "next_node Validate_plan (final_state tr) = END"
    by (simp add: should_continue_after_validation_def)
  with r n show ?thesis by blast
qed

text \<open>
  Witness for C1: the planner fails, so \<open>error\<close> is set after the second stage; the
  validation stage still runs, and \<open>result\<close> is null after it.
\<close>

theorem error_keeps_result_null_witness:
  "(1::nat) \<le> 2
   \<and> 2 < length (graph_invoke failing_planner_env sample_memory
                   (create_initial_state ''show its trajectory'' [] ''llama3''))
   \<and> error (state_at (graph_invoke failing_planner_env sample_memory
                        (create_initial_state ''show its trajectory'' [] ''llama3'')) 1) \<noteq> None
   \<and> result (state_at (graph_invoke failing_planner_env sample_memory
                         (create_initial_state ''show its trajectory'' [] ''llama3'')) 2) = None
   \<and> node_at (graph_invoke failing_planner_env sample_memory
                (create_initial_state ''show its trajectory'' [] ''llama3'')) 2 = Validate_plan"
proof -
  let ?tr = "graph_invoke failing_planner_env sample_memory
               (create_initial_state ''show its trajectory'' [] ''llama3'')"
  have len: "2 < length ?tr" by (simp add: graph_invoke_length)
  have err: "error (state_at ?tr 1) \<noteq> None"
    by (simp add: graph_invoke_trace state_at_def parse_intent_node_def failing_planner_env_def
        sample_env_def log_append_def Let_def)
  have nd: "node_at ?tr 2 = Validate_plan"
    by (simp add: graph_invoke_trace node_at_def)
  from error_keeps_result_null[of 1 2 failing_planner_env sample_memory
         "''show its trajectory''" "[]" "''llama3''", OF _ len err] len err nd
  show ?thesis by simp
qed


section \<open>Stage graph: domain routing\<close>

lemma trajectory_pipeline_node_log:
  "\<exists>rest. execution_log (trajectory_pipeline_node e s)
            = execution_log s @ ''Fetching trajectory data'' # rest"
  by (auto simp: trajectory_pipeline_node_def log_append_def Let_def
           split: option.splits sum.splits)

lemma loitering_pipeline_node_log:
  "\<exists>rest. execution_log (loitering_pipeline_node e s)
            = execution_log s @ ''Detecting loitering'' # rest"
  by (auto simp: loitering_pipeline_node_def log_append_def Let_def
           split: option.splits sum.splits)

text \<open>
  Claim C8: the route is a function of the domain of the resolved intent alone:
  \<open>trajectory\<close> and \<open>listing\<close> go to the trajectory stage, \<open>loitering\<close> to the
  loitering stage, \<open>prediction\<close> to the trajectory stage.  The stage entered first
  appends its own entry to the execution log (\<open>Detecting loitering\<close> on the loitering
  branch, \<open>Fetching trajectory data\<close> on the trajectory branch), so the log shows the
  branch taken.
\<close>

theorem route_by_domain_observable:
  fixes e :: "('v::linorder) env"
  assumes "canonical_intent s = Some intent"
  shows "route_by_domain s = Some (route_of_domain (domain_intent intent))
       \<and> route_of_domain Trajectory = ''trajectory''
       \<and> route_of_domain Listing = ''trajectory''
       \<and> route_of_domain Loitering = ''loitering''
       \<and> route_of_domain Prediction = ''trajectory''
       \<and> next_node Resolve_vessels s =
           (if domain_intent intent = Loitering then Loitering_pipeline
            else Trajectory_pipeline)
       \<and> (\<exists>rest. execution_log (fst (run_node V e (next_node Resolve_vessels s) (s, mem)))
                   = execution_log s @
                     (if domain_intent intent = Loitering then ''Detecting loitering''
                      else ''Fetching trajectory data'') # rest)"
proof -
  have route: "route_by_domain s = Some (route_of_domain (domain_intent intent))"
    using assms by (simp add: route_by_domain_def)
  have nxt: "next_node Resolve_vessels s =
           (if domain_intent intent = Loitering then Loitering_pipeline
            else Trajectory_pipeline)"
    using route by (cases "domain_intent intent") (simp_all add: route_of_domain_def)
  have "\<exists>rest. execution_log (fst (run_node V e (next_node Resolve_vessels s) (s, mem)))
                   = execution_log s @
                     (if domain_intent intent = Loitering then ''Detecting loitering''
                      else ''Fetching trajectory data'') # rest"
    unfolding nxt
    using trajectory_pipeline_node_log[of e s] loitering_pipeline_node_log[of e s]
    by (cases "domain_intent intent = Loitering") simp_all
  with route nxt show ?thesis by (simp add: route_of_domain_def)
qed

text \<open>Witness for C8: a state holding a loitering intent is routed to the loitering stage.\<close>

theorem route_by_domain_observable_witness:
  "canonical_intent
     ((create_initial_state ''detect loitering'' [] ''llama3'' :: nat AgentState)
        \<lparr>canonical_intent := Some loitering_intent\<rparr>) = Some loitering_intent
   \<and> route_by_domain
       ((create_initial_state ''detect loitering'' [] ''llama3'' :: nat AgentState)
          \<lparr>canonical_intent := Some loitering_intent\<rparr>) = Some ''loitering''
   \<and> next_node Resolve_vessels
       ((create_initial_state ''detect loitering'' [] ''llama3'' :: nat AgentState)
          \<lparr>canonical_intent := Some loitering_intent\<rparr>) = Loitering_pipeline"
proof -
  let ?s = "(create_initial_state ''detect loitering'' [] ''llama3'' :: nat AgentState)
              \<lparr>canonical_intent := Some loitering_intent\<rparr>"
  have c: "canonical_intent ?s = Some loitering_intent" by simp
  have d: "domain_intent loitering_intent = Loitering"
    by (simp add: loitering_intent_def)
  from route_by_domain_observable[OF c, of "validate sample_pylib" planning_env sample_memory] c d
  show ?thesis by simp
qed


section \<open>Stage graph: memory context\<close>

text \<open>
  Claim C9, as stated, fails: \<open>update_vessel_context\<close> with an empty list does not
  overwrite the last-referenced vessel list (the assignment is guarded by
  \<open>if vessels\<close>).
\<close>

theorem update_vessel_context_counterexample:
  "last_mentioned_vessels
     (update_vessel_context (update_vessel_context (MemoryManager_init 10) [''111111111'']) [])
   = [''111111111'']
   \<and> last_mentioned_vessels
       (update_vessel_context (update_vessel_context (MemoryManager_init 10) [''111111111'']) [])
     \<noteq> []"
  by (simp add: update_vessel_context_def MemoryManager_init_def)

text \<open>
  Claim C9, amended: \<open>update_vessel_context\<close> overwrites the last-referenced vessel list
  with a non-empty list and leaves the memory unchanged on an empty one;
  \<open>update_intent_context\<close> always overwrites the last-referenced domain; and for every
  run of the graph that ends with \<open>error\<close> set, the last-referenced vessel list and the
  last-referenced domain of the memory are what they were before the run.
\<close>

theorem context_updates:
  fixes e :: "('v::linorder) env"
  shows "(vs \<noteq> [] \<longrightarrow> last_mentioned_vessels (update_vessel_context m vs) = vs)
       \<and> update_vessel_context m [] = m
       \<and> last_intent (update_intent_context m d) = Some d
       \<and> (error (final_state (graph_invoke e mem (create_initial_state query hist model))) \<noteq> None
            \<longrightarrow> last_mentioned_vessels
                  (final_memory (graph_invoke e mem (create_initial_state query hist model)))
                  = last_mentioned_vessels mem
              \<and> last_intent
                  (final_memory (graph_invoke e mem (create_initial_state query hist model)))
                  = last_intent mem)"
  by (simp add: update_vessel_context_def update_intent_context_def graph_invoke_final)

text \<open>
  Witness for the amended C9: a run whose planner fails ends with \<open>error\<close> set and leaves
  the vessel list and the domain of the memory as they were.
\<close>

theorem context_updates_witness:
  "[''222222222''] \<noteq> []
   \<and> last_mentioned_vessels (update_vessel_context sample_memory [''222222222''])
       = [''222222222'']
   \<and> error (final_state (graph_invoke failing_planner_env sample_memory
                           (create_initial_state ''show its trajectory'' [] ''llama3''))) \<noteq> None
   \<and> last_mentioned_vessels
       (final_memory (graph_invoke failing_planner_env sample_memory
                        (create_initial_state ''show its trajectory'' [] ''llama3'')))
       = [''111111111'']
   \<and> last_intent
       (final_memory (graph_invoke failing_planner_env sample_memory
                        (create_initial_state ''show its trajectory'' [] ''llama3'')))
       = Some ''trajectory''"
proof -
  let ?tr = "graph_invoke failing_planner_env sample_memory
               (create_initial_state ''show its trajectory'' [] ''llama3'')"
  have err: "error (final_state ?tr) \<noteq> None"
    by (rule graph_invoke_error)
  have mem: "last_mentioned_vessels sample_memory = [''111111111'']"
            "last_intent sample_memory = Some ''trajectory''"
    by (simp_all add: sample_memory_def update_intent_context_def update_vessel_context_def
                      MemoryManager_init_def)
  from context_updates[of "[''222222222'']" sample_memory "''x''" failing_planner_env
         sample_memory "''show its trajectory''" "[]" "''llama3''"] err mem
  show ?thesis by simp
qed


section \<open>Stage graph: the edges after validation\<close>

text \<open>
  Only the edge after validation tests \<open>error\<close>.  The routing edge and the edges into
  the response builder do not: the response builder, entered with \<open>error\<close> set and no
  table, leaves \<open>error\<close> as it is and still sets \<open>result\<close>.  With a validator that
  accepts the example intent and a position store that fails, a run executes the
  trajectory stage and the response builder and ends with \<open>error\<close> and \<open>result\<close>
  both set and with the vessel context of the memory overwritten.  In the graph as it is
  built such a run does not occur, because \<open>validate\<close> rejects every intent
  (\<open>graph_invoke_trace\<close>).
\<close>

lemma response_builder_node_keeps_error:
  assumes "canonical_intent s = Some intent" and "dataframe s = None"
  shows "error (fst (response_builder_node e (s, mem))) = error s
       \<and> result (fst (response_builder_node e (s, mem))) \<noteq> None"
  using assms
  by (simp add: response_builder_node_def build_response_def log_append_def Let_def)

lemma accepting_validator_run:
  "map fst (run_from (\<lambda>intent. []) planning_env Resolve_references
              (create_initial_state ''show its trajectory'' [] ''llama3'', sample_memory))
     = [Resolve_references, Parse_intent, Validate_plan, Resolve_vessels,
        Trajectory_pipeline, Response_builder]
   \<and> error (final_state (run_from (\<lambda>intent. []) planning_env Resolve_references
              (create_initial_state ''show its trajectory'' [] ''llama3'', sample_memory)))
     = Some ''Trajectory fetch failed: IO Error: store unavailable''
   \<and> result (final_state (run_from (\<lambda>intent. []) planning_env Resolve_references
              (create_initial_state ''show its trajectory'' [] ''llama3'', sample_memory)))
     = Some \<lparr>resp_format = ''table'', resp_data = None,
              resp_message = Some ''No results found'', resp_count = 0\<rparr>
   \<and> last_mentioned_vessels
       (final_memory (run_from (\<lambda>intent. []) planning_env Resolve_references
              (create_initial_state ''show its trajectory'' [] ''llama3'', sample_memory)))
     = [''123456789'']
   \<and> last_mentioned_vessels sample_memory = [''111111111'']"
  by code_simp

section \<open>Loitering detector: grouping\<close>

text \<open>
  A block of rows with one key, followed by rows with larger keys, is the first group of
  \<open>groupby\<close>.
\<close>

lemma sort_remdups_block:
  fixes k :: "'k::linorder"
  assumes "\<forall>x\<in>set ys. k < x"
  shows "sort (remdups (k # ys)) = k # sort (remdups ys)"
proof (rule sorted_distinct_set_unique)
  show "sorted (sort (remdups (k # ys)))" by simp
  show "distinct (sort (remdups (k # ys)))" by (simp only: distinct_sort distinct_remdups)
  show "sorted (k # sort (remdups ys))" using assms by (auto simp: less_imp_le)
  show "distinct (k # sort (remdups ys))" using assms by auto
  show "set (sort (remdups (k # ys))) = set (k # sort (remdups ys))" using assms by auto
qed

lemma sort_remdups_same:
  fixes k :: "'k::linorder"
  assumes "\<forall>x\<in>set xs. x = k" "\<forall>x\<in>set ys. k < x" "xs \<noteq> []"
  shows "sort (remdups (xs @ ys)) = k # sort (remdups ys)"
proof -
  have "set (xs @ ys) = set (k # ys)" using assms by (cases xs) auto
  then have "sort (remdups (xs @ ys)) = sort (remdups (k # ys))"
    by (metis sorted_list_of_set_sort_remdups)
  then show ?thesis using sort_remdups_block[OF assms(2)] by simp
qed

lemma groupby_block:
  fixes key :: "'a \<Rightarrow> 'k::linorder"
  assumes "A \<noteq> []" and "\<forall>a\<in>set A. key a = k" and "\<forall>b\<in>set B. k < key b"
  shows "groupby key (A @ B) = (k, A) # groupby key B"
proof -
  have keys: "sort (remdups (map key (A @ B))) = k # sort (remdups (map key B))"
    using assms sort_remdups_same[of "map key A" k "map key B"] by auto
  have fa: "filter (\<lambda>r. key r = k) A = A" using assms(2) by (simp add: filter_id_conv)
  have fb: "filter (\<lambda>r. key r = k) B = []" using assms(3) by (auto simp: filter_empty_conv)
  have rest: "map (\<lambda>k'. (k', filter (\<lambda>r. key r = k') (A @ B))) (sort (remdups (map key B)))
            = map (\<lambda>k'. (k', filter (\<lambda>r. key r = k') B)) (sort (remdups (map key B)))"
  proof (rule map_cong[OF refl])
    fix k' assume "k' \<in> set (sort (remdups (map key B)))"
    then have "k < k'" using assms(3) by auto
    then have "filter (\<lambda>r. key r = k') A = []" using assms(2) by (auto simp: filter_empty_conv)
    then show "(k', filter (\<lambda>r. key r = k') (A @ B)) = (k', filter (\<lambda>r. key r = k') B)" by simp
  qed
  show ?thesis
    unfolding groupby_def keys using fa fb rest by simp
qed

lemma groupby_Nil [simp]: "groupby key [] = []"
  by (simp add: groupby_def)

lemma groupby_single_key:
  fixes key :: "'a \<Rightarrow> 'k::linorder"
  assumes "A \<noteq> []" and "\<forall>a\<in>set A. key a = k"
  shows "groupby key A = [(k, A)]"
  using groupby_block[of A key k "[]"] assms by simp

lemma cumsum_from_all_False:
  "\<forall>b\<in>set bs. \<not> b \<Longrightarrow> cumsum_from c bs = replicate (length bs) c"
  by (induction bs) (auto simp: Let_def)

lemma cumsum_from_append:
  "cumsum_from c (as @ bs) = cumsum_from c as @ cumsum_from (c + length (filter id as)) bs"
  by (induction as arbitrary: c) (auto simp: Let_def)

lemma cumsum_from_ge: "x \<in> set (cumsum_from c bs) \<Longrightarrow> c \<le> x"
proof (induction bs arbitrary: c)
  case Nil
  then show ?case by simp
next
  case (Cons b bs)
  then show ?case by (fastforce simp: Let_def)
qed

lemma length_cumsum_from [simp]: "length (cumsum_from c bs) = length bs"
  by (induction bs arbitrary: c) (auto simp: Let_def)


lemma groups_eq_runs:
  assumes "ps \<noteq> [] \<longrightarrow> fst (hd ps)"
  shows "map (\<lambda>(k, g). map snd g) (groupby fst (zip (cumsum_from c (map fst ps)) (map snd ps)))
         = runs ps"
  using assms
proof (induction ps arbitrary: c rule: runs.induct)
  case 1
  then show ?case by simp
next
  case (2 f x ps)
  let ?tw = "takeWhile (\<lambda>p. \<not> fst p) ps" and ?dw = "dropWhile (\<lambda>p. \<not> fst p) ps"
  have f: "f" using "2.prems" by simp
  have twF: "\<forall>b\<in>set (map fst ?tw). \<not> b" by (auto dest: set_takeWhileD)
  have dwT: "?dw \<noteq> [] \<longrightarrow> fst (hd ?dw)" using hd_dropWhile[of "\<lambda>p. \<not> fst p" ps] by auto
  have cnt: "length (filter id (map fst ?tw)) = 0" using twF by (auto simp: filter_empty_conv)
  have ids: "cumsum_from c (map fst ((f, x) # ps))
             = replicate (Suc (length ?tw)) (Suc c) @ cumsum_from (Suc c) (map fst ?dw)"
  proof -
    have "cumsum_from (Suc c) (map fst ps)
           = cumsum_from (Suc c) (map fst ?tw) @ cumsum_from (Suc c) (map fst ?dw)"
    proof -
      have "map fst ps = map fst ?tw @ map fst ?dw"
        by (simp only: map_append[symmetric] takeWhile_dropWhile_id)
      then show ?thesis
        using cumsum_from_append[of "Suc c" "map fst ?tw" "map fst ?dw"] cnt by simp
    qed
    then show ?thesis using f cumsum_from_all_False[OF twF, of "Suc c"] by (simp add: Let_def)
  qed
  let ?A = "zip (replicate (Suc (length ?tw)) (Suc c)) (x # map snd ?tw)"
  let ?B = "zip (cumsum_from (Suc c) (map fst ?dw)) (map snd ?dw)"
  have zipeq: "zip (cumsum_from c (map fst ((f, x) # ps))) (map snd ((f, x) # ps)) = ?A @ ?B"
  proof -
    have "map snd ps = map snd ?tw @ map snd ?dw"
      by (simp only: map_append[symmetric] takeWhile_dropWhile_id)
    then have "map snd ((f, x) # ps) = (x # map snd ?tw) @ map snd ?dw"
      by simp
    moreover have "zip (replicate (Suc (length ?tw)) (Suc c) @ cumsum_from (Suc c) (map fst ?dw))
                       ((x # map snd ?tw) @ map snd ?dw) = ?A @ ?B"
      by (rule zip_append) simp
    ultimately show ?thesis unfolding ids by simp
  qed
  have A1: "?A \<noteq> []" by simp
  have A2: "\<forall>a\<in>set ?A. fst a = Suc c" by (auto dest!: set_zip_leftD)
  have B2: "\<forall>b\<in>set ?B. Suc c < fst b"
  proof
    fix b assume b: "b \<in> set ?B"
    have ne: "?dw \<noteq> []"
    proof
      assume e: "?dw = []"
      show False using b unfolding e by simp
    qed
    then obtain g y rest where dw: "?dw = (g, y) # rest" by (cases ?dw) auto
    with dwT have g by simp
    obtain k y where bk: "b = (k, y)" by (cases b) auto
    have "k \<in> set (cumsum_from (Suc c) (map fst ?dw))"
      using b unfolding bk by (rule set_zip_leftD)
    then have "fst b \<in> set (cumsum_from (Suc c) (map fst ?dw))"
      by (simp add: bk)
    then have "fst b \<in> set (cumsum_from (Suc c) (True # map fst rest))" using dw \<open>g\<close> by simp
    then have "fst b = Suc (Suc c) \<or> fst b \<in> set (cumsum_from (Suc (Suc c)) (map fst rest))"
      by (simp add: Let_def)
    then show "Suc c < fst b" using cumsum_from_ge[of "fst b" "Suc (Suc c)" "map fst rest"] by auto
  qed
  have "groupby fst (?A @ ?B) = (Suc c, ?A) # groupby fst ?B"
    using groupby_block[OF A1 A2 B2] .
  moreover have "map snd ?A = x # map snd ?tw"
    by (simp del: replicate_Suc)
  moreover have "map (\<lambda>(k, g). map snd g) (groupby fst ?B) = runs ?dw"
    using "2.IH"[OF dwT] .
  ultimately show ?case unfolding zipeq by simp
qed


section \<open>Loitering detector: the event groups are the runs of the specification\<close>

lemma later_flags_simps [simp]:
  "later_flags [] = []" "later_flags [r] = []"
  "later_flags (r # r' # rs) = (gap_hours r r' > 1) # later_flags (r' # rs)"
  by (simp_all add: later_flags_def gap_hours_def)

lemma length_later_flags: "length (later_flags (r # rs)) = length rs"
  by (simp add: later_flags_def)

lemma flags_eq: "map new_event (time_diff (map timestamp (r # rs))) = True # later_flags (r # rs)"
  by (auto simp: later_flags_def)

lemma runs_split_runs:
  "runs (zip (f # later_flags (r # rs)) (r # rs)) = split_runs (r # rs)"
proof (induction "r # rs" arbitrary: f r rs rule: split_runs.induct)
  case (2 r)
  then show ?case by simp
next
  case (3 r r' rs)
  have IH: "\<And>g. runs (zip (g # later_flags (r' # rs)) (r' # rs)) = split_runs (r' # rs)"
    using 3 by (cases "1 < gap_hours r r'") auto
  show ?case
  proof (cases "1 < gap_hours r r'")
    case True
    then show ?thesis using IH[of True] by simp
  next
    case False
    then show ?thesis using IH[of False, symmetric] by simp
  qed
qed

lemma event_groups_split_runs: "event_groups grp = split_runs grp"
proof (cases grp)
  case Nil
  then show ?thesis by (simp add: event_groups_def event_ids_def cumsum_def)
next
  case (Cons r rs)
  let ?ps = "zip (True # later_flags (r # rs)) (r # rs)"
  have len: "length (True # later_flags (r # rs)) = length (r # rs)"
    by (simp add: length_later_flags)
  have f: "map fst ?ps = True # later_flags (r # rs)" using len by (simp only: map_fst_zip)
  have s: "map snd ?ps = r # rs" using len by (simp only: map_snd_zip)
  have "event_groups grp
        = map (\<lambda>(k, g). map snd g) (groupby fst (zip (cumsum_from 0 (map fst ?ps)) (map snd ?ps)))"
    unfolding f s by (simp only: event_groups_def event_ids_def cumsum_def Cons flags_eq)
  also have "\<dots> = runs ?ps" by (rule groups_eq_runs) simp
  also have "\<dots> = split_runs (r # rs)" by (rule runs_split_runs)
  finally show ?thesis by (simp add: Cons)
qed

lemma split_runs_nonempty: "rows \<noteq> [] \<Longrightarrow> split_runs rows \<noteq> []"
  by (induction rows rule: split_runs.induct) (auto split: list.splits)

lemma concat_split_runs: "concat (split_runs rows) = rows"
proof (induction rows rule: split_runs.induct)
  case 1
  then show ?case by simp
next
  case (2 r)
  then show ?case by simp
next
  case (3 r r' rs)
  obtain s ss where sr: "split_runs (r' # rs) = s # ss"
    using split_runs_nonempty[of "r' # rs"] by (cases "split_runs (r' # rs)") auto
  have "concat (split_runs (r' # rs)) = r' # rs"
    using 3 by (cases "1 < gap_hours r r'") auto
  then show ?case using sr by simp
qed

lemma split_runs_no_empty: "[] \<notin> set (split_runs rows)"
  by (induction rows rule: split_runs.induct) (auto split: list.splits)

lemma hd_hd_split_runs: "hd (hd (split_runs (r # rs))) = r"
  by (cases rs) (auto split: list.splits)

lemma split_runs_contiguous: "seg \<in> set (split_runs rows) \<Longrightarrow> contiguous seg"
proof (induction rows arbitrary: seg rule: split_runs.induct)
  case 1
  then show ?case by simp
next
  case (2 r)
  then show ?case by simp
next
  case (3 r r' rs)
  show ?case
  proof (cases "1 < gap_hours r r'")
    case True
    then show ?thesis using 3 by auto
  next
    case False
    obtain s ss where sr: "split_runs (r' # rs) = s # ss"
      using split_runs_nonempty[of "r' # rs"] by (cases "split_runs (r' # rs)") auto
    have hs: "hd s = r'" using hd_hd_split_runs[of r' rs] sr by simp
    have sne: "s \<noteq> []" using split_runs_no_empty[of "r' # rs"] sr by auto
    have cs: "contiguous s" using "3.IH"(2)[of s] False sr by simp
    have "contiguous (r # s)" using cs hs sne False by (cases s) auto
    then show ?thesis using 3 False sr by auto
  qed
qed

lemma split_runs_separated: "separated (split_runs rows)"
proof (induction rows rule: split_runs.induct)
  case 1
  then show ?case by simp
next
  case (2 r)
  then show ?case by simp
next
  case (3 r r' rs)
  obtain s ss where sr: "split_runs (r' # rs) = s # ss"
    using split_runs_nonempty[of "r' # rs"] by (cases "split_runs (r' # rs)") auto
  have hs: "hd s = r'" using hd_hd_split_runs[of r' rs] sr by simp
  have sne: "s \<noteq> []" using split_runs_no_empty[of "r' # rs"] sr by auto
  show ?case
  proof (cases "1 < gap_hours r r'")
    case True
    then show ?thesis using 3 sr hs by simp
  next
    case False
    have "separated (s # ss)" using 3 False sr by simp
    then have "separated ((r # s) # ss)" using sne by (cases ss) auto
    then show ?thesis using False sr by simp
  qed
qed

lemma split_runs_contiguous_whole:
  "rows \<noteq> [] \<Longrightarrow> contiguous rows \<Longrightarrow> split_runs rows = [rows]"
  by (induction rows rule: split_runs.induct) auto

lemma split_runs_append:
  "xs \<noteq> [] \<Longrightarrow> ys \<noteq> [] \<Longrightarrow> 1 < gap_hours (last xs) (hd ys) \<Longrightarrow>
   split_runs (xs @ ys) = split_runs xs @ split_runs ys"
proof (induction xs rule: split_runs.induct)
  case 1
  then show ?case by simp
next
  case (2 r)
  then show ?case by (cases ys) auto
next
  case (3 r r' rs)
  obtain s ss where sr: "split_runs (r' # rs) = s # ss"
    using split_runs_nonempty[of "r' # rs"] by (cases "split_runs (r' # rs)") auto
  have IH: "split_runs ((r' # rs) @ ys) = split_runs (r' # rs) @ split_runs ys"
    using 3 by (cases "1 < gap_hours r r'") auto
  then show ?case using sr by simp
qed

lemma split_runs_two:
  assumes "xs \<noteq> []" "ys \<noteq> []" "contiguous xs" "contiguous ys" "1 < gap_hours (last xs) (hd ys)"
  shows "split_runs (xs @ ys) = [xs, ys]"
  using assms split_runs_append[of xs ys] split_runs_contiguous_whole[of xs]
    split_runs_contiguous_whole[of ys] by simp

lemma vessel_events_filter:
  "vessel_events dwell m grp =
     map (make_event m)
       (filter (\<lambda>seg. 2 \<le> length seg \<and> dwell \<le> dwell_time seg)
          (event_groups (sort_key timestamp grp)))"
proof -
  have "concat (map (\<lambda>eg. if length eg < 2 then []
           else if dwell \<le> dwell_time eg then [make_event m eg] else []) segs)
        = map (make_event m) (filter (\<lambda>seg. 2 \<le> length seg \<and> dwell \<le> dwell_time seg) segs)"
    for segs :: "'a track_point list list"
    by (induction segs) auto
  then show ?thesis by (simp add: vessel_events_def Let_def)
qed

lemma detect_loitering_eq:
  "detect_loitering self df st dt sc =
     concat (map (\<lambda>(m, grp). vessel_events (float_or dt (svc_dwell_time_hours self)) m grp)
               (groupby mmsi (slow_rows (float_or st (svc_speed_threshold self)) df)))"
  by (auto simp: detect_loitering_def Let_def apply_spatial_filter_def slow_rows_def split: option.splits)

lemma series_max_Max: "xs \<noteq> [] \<Longrightarrow> series_max xs = Max (set xs)"
proof (cases xs)
  case Nil
  assume "xs \<noteq> []"
  with Nil show ?thesis by simp
next
  case (Cons a list)
  then show ?thesis using Max.set_eq_fold[of a list] by simp
qed

lemma series_min_Min: "xs \<noteq> [] \<Longrightarrow> series_min xs = Min (set xs)"
proof (cases xs)
  case Nil
  assume "xs \<noteq> []"
  with Nil show ?thesis by simp
next
  case (Cons a list)
  then show ?thesis using Min.set_eq_fold[of a list] by simp
qed

lemma dwell_time_sorted:
  "df \<noteq> [] \<Longrightarrow> dwell_time (sort_key timestamp df)
     = (Max (timestamp ` set df) - Min (timestamp ` set df)) / 3600"
proof -
  assume "df \<noteq> []"
  then have "map timestamp (sort_key timestamp df) \<noteq> []"
    by (metis length_0_conv length_map length_sort)
  then show ?thesis
    by (simp add: dwell_time_def series_max_Max series_min_Min)
qed


section \<open>Loitering detector: the speed filter\<close>

text \<open>
  Claim C3: the speed filter keeps, in table order, exactly the rows whose speed over
  ground is not greater than or equal to the threshold, so the rows it discards are
  exactly those at or above the threshold.  The detector's result is built from the
  kept rows and from nothing else: it is the list of the events of each vessel's kept
  rows, vessel by vessel, and so it is also the detector's result on the kept rows
  alone.  When no row is kept the result is empty.  The default threshold is 2, so that
  a row at exactly 2 knots is discarded.
\<close>

theorem slow_filter_discards:
  fixes df :: "('v::linorder) track_point list"
  shows "slow_rows thr df = filter (\<lambda>r. \<not> thr \<le> sog r) df
       \<and> set df - set (slow_rows thr df) = {r \<in> set df. thr \<le> sog r}
       \<and> detect_loitering self df st dt sc
           = concat (map (\<lambda>(m, grp).
                       vessel_events (float_or dt (svc_dwell_time_hours self)) m grp)
                     (groupby mmsi
                        (filter (\<lambda>r. \<not> float_or st (svc_speed_threshold self) \<le> sog r) df)))
       \<and> detect_loitering self df st dt sc
           = detect_loitering self (slow_rows (float_or st (svc_speed_threshold self)) df) st dt sc
       \<and> (slow_rows (float_or st (svc_speed_threshold self)) df = []
            \<longrightarrow> detect_loitering self df st dt sc = [])
       \<and> float_or None (svc_speed_threshold (LoiteringService_init settings)) = 2
       \<and> (sog r = 2 \<longrightarrow>
            r \<notin> set (slow_rows
                       (float_or None (svc_speed_threshold (LoiteringService_init settings))) df))"
proof -
  have 1: "slow_rows t df = filter (\<lambda>r. \<not> t \<le> sog r) df" for t
    by (simp add: slow_rows_def not_le)
  have 2: "set df - set (slow_rows thr df) = {r \<in> set df. thr \<le> sog r}"
    by (auto simp: slow_rows_def)
  have 3: "detect_loitering self df st dt sc
           = concat (map (\<lambda>(m, grp).
                       vessel_events (float_or dt (svc_dwell_time_hours self)) m grp)
                     (groupby mmsi
                        (filter (\<lambda>r. \<not> float_or st (svc_speed_threshold self) \<le> sog r) df)))"
    by (simp only: detect_loitering_eq 1)
  have idem: "slow_rows t (slow_rows t df) = slow_rows t df" for t
    by (simp add: slow_rows_def)
  have 4: "detect_loitering self df st dt sc
           = detect_loitering self (slow_rows (float_or st (svc_speed_threshold self)) df) st dt sc"
    by (simp add: detect_loitering_eq idem)
  have 5: "slow_rows (float_or st (svc_speed_threshold self)) df = []
            \<longrightarrow> detect_loitering self df st dt sc = []"
    by (simp add: detect_loitering_eq)
  have 6: "float_or None (svc_speed_threshold (LoiteringService_init settings)) = 2"
    by (simp add: float_or_def LoiteringService_init_def settings_def)
  have 7: "sog r = 2 \<longrightarrow>
            r \<notin> set (slow_rows
                       (float_or None (svc_speed_threshold (LoiteringService_init settings))) df)"
    by (simp add: 6 slow_rows_def)
  from 1[of thr] 2 3 4 5 6 7 show ?thesis by blast
qed

text \<open>
  Witness for C3.  In the mixed table the rows kept are exactly the five slow rows of
  vessel 7: the row of vessel 7 at exactly 2 knots, its row at 15 knots and all rows of
  vessel 9 are discarded, and the rows at 1 and 1.5 knots are kept.  The detector
  returns the one event of these five rows.  In the transit table every row is at or
  above 2 knots (the last one at exactly 2), no row is kept and the result is empty.
\<close>

theorem slow_filter_discards_witness:
  "filter (\<lambda>r. \<not> 2 \<le> sog r) mixed_track = loiter_track
   \<and> detect_loitering (LoiteringService_init settings) mixed_track None None None
       = [\<lparr>ev_mmsi = 7, start_time = 0, end_time = 14400, dwell_time_hours = 4,
           center_latitude = 10, center_longitude = 20, num_points = 5, avg_speed = 4 / 5\<rparr>]
   \<and> slow_rows (float_or None (svc_speed_threshold (LoiteringService_init settings)))
         transit_track = []
   \<and> detect_loitering (LoiteringService_init settings) transit_track None None None = []
   \<and> sog (pt 9 14400 2) = 2
   \<and> pt 9 14400 2 \<in> set transit_track"
proof -
  have thr: "float_or None (svc_speed_threshold (LoiteringService_init settings)) = 2"
    and dw: "float_or None (svc_dwell_time_hours (LoiteringService_init settings)) = 4"
    by (simp_all add: float_or_def LoiteringService_init_def settings_def)
  have kept: "filter (\<lambda>r. \<not> 2 \<le> sog r) mixed_track = loiter_track"
    by (simp add: mixed_track_def loiter_track_def pt_def)
  have grp: "groupby mmsi loiter_track = [(7, loiter_track)]"
    by (simp add: groupby_def loiter_track_def pt_def)
  have ev: "vessel_events 4 7 loiter_track
       = [\<lparr>ev_mmsi = 7, start_time = 0, end_time = 14400, dwell_time_hours = 4,
           center_latitude = 10, center_longitude = 20, num_points = 5, avg_speed = 4 / 5\<rparr>]"
    by (simp add: vessel_events_def event_groups_def event_ids_def cumsum_def groupby_def
        make_event_def dwell_time_def mean_def loiter_track_def pt_def Let_def)
  have "detect_loitering (LoiteringService_init settings) mixed_track None None None
        = concat (map (\<lambda>(m, grp).
                    vessel_events
                      (float_or None (svc_dwell_time_hours (LoiteringService_init settings))) m grp)
                  (groupby mmsi
                     (filter (\<lambda>r. \<not> float_or None
                                 (svc_speed_threshold (LoiteringService_init settings)) \<le> sog r)
                        mixed_track)))"
    using slow_filter_discards[of 2 mixed_track "LoiteringService_init settings" None None None]
    by blast
  then have mixed: "detect_loitering (LoiteringService_init settings) mixed_track None None None
       = [\<lparr>ev_mmsi = 7, start_time = 0, end_time = 14400, dwell_time_hours = 4,
           center_latitude = 10, center_longitude = 20, num_points = 5, avg_speed = 4 / 5\<rparr>]"
    unfolding thr dw kept grp by (simp add: ev)
  have e: "slow_rows (float_or None (svc_speed_threshold (LoiteringService_init settings)))
             transit_track = []"
    by (simp add: slow_rows_def float_or_def LoiteringService_init_def settings_def
        transit_track_def pt_def)
  have m: "pt 9 14400 2 \<in> set transit_track" by (simp add: transit_track_def)
  have sg: "sog (pt 9 14400 2) = 2" by (simp add: pt_def)
  from slow_filter_discards[of 2 transit_track "LoiteringService_init settings" None None None
         "pt 9 14400 2"] e
  have "detect_loitering (LoiteringService_init settings) transit_track None None None = []"
    by blast
  with kept mixed e m sg show ?thesis by simp
qed


section \<open>Loitering detector: the dwell threshold is inclusive\<close>

text \<open>
  Claim C4: for a table of at least two rows, all of one vessel and all below the speed
  threshold, whose consecutive timestamps (in time order) are at most one hour apart and
  whose span from the earliest to the latest timestamp equals the dwell threshold, the
  detector returns exactly one event; its point count is the number of rows and its
  dwell duration is the threshold.
\<close>

theorem dwell_threshold_inclusive:
  fixes df :: "('v::linorder) track_point list"
  assumes "2 \<le> length df"
      and "\<forall>r\<in>set df. mmsi r = m \<and> sog r < float_or st (svc_speed_threshold self)"
      and "contiguous (sort_key timestamp df)"
      and "(Max (timestamp ` set df) - Min (timestamp ` set df)) / 3600
             = float_or dt (svc_dwell_time_hours self)"
  shows "detect_loitering self df st dt sc = [make_event m (sort_key timestamp df)]
       \<and> length (detect_loitering self df st dt sc) = 1
       \<and> num_points (make_event m (sort_key timestamp df)) = length df
       \<and> dwell_time_hours (make_event m (sort_key timestamp df))
            = float_or dt (svc_dwell_time_hours self)"
proof -
  let ?thr = "float_or st (svc_speed_threshold self)"
  let ?dw = "float_or dt (svc_dwell_time_hours self)"
  let ?s = "sort_key timestamp df"
  have ne: "df \<noteq> []" using assms(1) by auto
  have sne: "?s \<noteq> []" using ne by (metis length_0_conv length_sort)
  have slow: "slow_rows ?thr df = df"
    using assms(2) by (simp add: slow_rows_def filter_id_conv)
  have grp: "groupby mmsi df = [(m, df)]"
    using groupby_single_key[OF ne, of mmsi m] assms(2) by simp
  have segs: "event_groups ?s = [?s]"
    using split_runs_contiguous_whole[OF sne assms(3)] by (simp add: event_groups_split_runs)
  have dwell: "dwell_time ?s = ?dw"
    using dwell_time_sorted[OF ne] assms(4) by simp
  have "vessel_events ?dw m df = [make_event m ?s]"
    using assms(1) dwell by (simp add: vessel_events_filter segs)
  then have "detect_loitering self df st dt sc = [make_event m ?s]"
    by (simp add: detect_loitering_eq slow grp)
  then show ?thesis using dwell by (simp add: make_event_def)
qed

text \<open>
  Witness for C4: five slow rows of vessel 7, one hour apart, spanning exactly the
  default dwell threshold of four hours.
\<close>

theorem dwell_threshold_inclusive_witness:
  "detect_loitering (LoiteringService_init settings) loiter_track None None None
     = [\<lparr>ev_mmsi = 7, start_time = 0, end_time = 14400, dwell_time_hours = 4,
         center_latitude = 10, center_longitude = 20, num_points = 5, avg_speed = 4 / 5\<rparr>]"
proof -
  have s: "sort_key timestamp loiter_track = loiter_track"
    by (simp add: loiter_track_def pt_def)
  have a1: "2 \<le> length loiter_track" by (simp add: loiter_track_def)
  have a2: "\<forall>r\<in>set loiter_track. mmsi r = 7
              \<and> sog r < float_or None (svc_speed_threshold (LoiteringService_init settings))"
    by (simp add: loiter_track_def pt_def float_or_def LoiteringService_init_def settings_def)
  have a3: "contiguous (sort_key timestamp loiter_track)"
    unfolding s by (simp add: loiter_track_def pt_def gap_hours_def)
  have a4: "(Max (timestamp ` set loiter_track) - Min (timestamp ` set loiter_track)) / 3600
             = float_or None (svc_dwell_time_hours (LoiteringService_init settings))"
    by (simp add: loiter_track_def pt_def float_or_def LoiteringService_init_def settings_def)
  from dwell_threshold_inclusive[OF a1 a2 a3 a4, of None]
  show ?thesis
    unfolding s
    by (simp add: make_event_def loiter_track_def pt_def dwell_time_def mean_def)
qed


section \<open>Loitering detector: segmentation\<close>

text \<open>
  Claim C5: the event groups of the source are the runs of the specification.  They
  partition the rows in order; every group is non-empty and has no consecutive gap above
  one hour; each group ends more than one hour before the next begins; two contiguous
  sequences put one after the other with a gap of more than one hour (such as two
  hours) are cut into exactly these two segments; and the events of a vessel, and of the
  detector as a whole, are exactly those of the segments with at least two rows whose
  span reaches the dwell threshold, so that a shorter segment, or one whose span is
  below the threshold, yields no event.
\<close>

theorem segmentation_by_gaps:
  fixes grp xs ys :: "('v::linorder) track_point list"
  shows "event_groups grp = split_runs grp
       \<and> concat (event_groups grp) = grp
       \<and> (\<forall>seg\<in>set (event_groups grp). seg \<noteq> [] \<and> contiguous seg)
       \<and> separated (event_groups grp)
       \<and> (xs \<noteq> [] \<and> ys \<noteq> [] \<and> contiguous xs \<and> contiguous ys
            \<and> 1 < gap_hours (last xs) (hd ys)
            \<longrightarrow> event_groups (xs @ ys) = [xs, ys])
       \<and> vessel_events dwell m grp =
           map (make_event m)
             (filter (\<lambda>seg. 2 \<le> length seg \<and> dwell \<le> dwell_time seg)
                (event_groups (sort_key timestamp grp)))
       \<and> detect_loitering self df st dt sc =
           concat (map (\<lambda>(m, g).
                     map (make_event m)
                       (filter (\<lambda>seg. 2 \<le> length seg
                                  \<and> float_or dt (svc_dwell_time_hours self) \<le> dwell_time seg)
                          (event_groups (sort_key timestamp g))))
                   (groupby mmsi (slow_rows (float_or st (svc_speed_threshold self)) df)))"
proof -
  have a: "\<forall>seg\<in>set (event_groups grp). seg \<noteq> [] \<and> contiguous seg"
    using split_runs_no_empty[of grp] split_runs_contiguous[of _ grp]
    by (auto simp: event_groups_split_runs)
  have b: "xs \<noteq> [] \<and> ys \<noteq> [] \<and> contiguous xs \<and> contiguous ys
            \<and> 1 < gap_hours (last xs) (hd ys)
            \<longrightarrow> event_groups (xs @ ys) = [xs, ys]"
    using split_runs_two[of xs ys] by (simp add: event_groups_split_runs)
  have c: "detect_loitering self df st dt sc =
           concat (map (\<lambda>(m, g).
                     map (make_event m)
                       (filter (\<lambda>seg. 2 \<le> length seg
                                  \<and> float_or dt (svc_dwell_time_hours self) \<le> dwell_time seg)
                          (event_groups (sort_key timestamp g))))
                   (groupby mmsi (slow_rows (float_or st (svc_speed_threshold self)) df)))"
    by (simp add: detect_loitering_eq vessel_events_filter)
  show ?thesis
    using a b c vessel_events_filter[of dwell m grp]
    by (simp add: event_groups_split_runs concat_split_runs split_runs_separated)
qed

text \<open>
  Witness for C5: the track with a two-hour gap is cut into two segments of two rows
  and one hour each; with the default dwell threshold of four hours neither yields an
  event, with a threshold of one hour both do.
\<close>

theorem segmentation_by_gaps_witness:
  "take 2 gapped_track \<noteq> [] \<and> drop 2 gapped_track \<noteq> []
   \<and> contiguous (take 2 gapped_track) \<and> contiguous (drop 2 gapped_track)
   \<and> gap_hours (last (take 2 gapped_track)) (hd (drop 2 gapped_track)) = 2
   \<and> event_groups gapped_track = [take 2 gapped_track, drop 2 gapped_track]
   \<and> detect_loitering (LoiteringService_init settings) gapped_track None None None = []
   \<and> length (detect_loitering (LoiteringService_init settings) gapped_track None (Some 1) None) = 2"
proof -
  let ?xs = "take 2 gapped_track" and ?ys = "drop 2 gapped_track"
  have h: "?xs \<noteq> [] \<and> ?ys \<noteq> [] \<and> contiguous ?xs \<and> contiguous ?ys
           \<and> gap_hours (last ?xs) (hd ?ys) = 2"
    by (simp add: gapped_track_def pt_def gap_hours_def)
  have g: "groupby mmsi gapped_track = [(7, gapped_track)]"
    by (simp add: groupby_def gapped_track_def pt_def)
  have s: "sort_key timestamp gapped_track = gapped_track"
    by (simp add: gapped_track_def pt_def)
  have sl: "slow_rows 2 gapped_track = gapped_track"
    by (simp add: slow_rows_def gapped_track_def pt_def)
  have d: "dwell_time ?xs = 1" "dwell_time ?ys = 1"
    by (simp_all add: gapped_track_def pt_def dwell_time_def)
  have l: "length ?xs = 2" "length ?ys = 2"
    by (simp_all add: gapped_track_def)
  have gap: "1 < gap_hours (last ?xs) (hd ?ys)" using h by simp
  have "event_groups (?xs @ ?ys) = [?xs, ?ys]"
    using segmentation_by_gaps[where xs = ?xs and ys = ?ys] h gap by blast
  then have eg: "event_groups gapped_track = [?xs, ?ys]" by simp
  have det: "detect_loitering (LoiteringService_init settings) gapped_track None dt None =
           concat (map (\<lambda>(m, g).
                     map (make_event m)
                       (filter (\<lambda>seg. 2 \<le> length seg
                                  \<and> float_or dt (svc_dwell_time_hours (LoiteringService_init settings))
                                      \<le> dwell_time seg)
                          (event_groups (sort_key timestamp g))))
                   (groupby mmsi (slow_rows (float_or None
                      (svc_speed_threshold (LoiteringService_init settings))) gapped_track)))" for dt
    using segmentation_by_gaps[where self = "LoiteringService_init settings"
            and df = gapped_track and st = None and dt = dt and sc = None] by blast
  have e1: "detect_loitering (LoiteringService_init settings) gapped_track None None None = []"
    unfolding det using eg d l s sl g
    by (simp add: float_or_def LoiteringService_init_def settings_def)
  have e2: "length (detect_loitering (LoiteringService_init settings) gapped_track None (Some 1) None) = 2"
    unfolding det using eg d l s sl g
    by (simp add: float_or_def LoiteringService_init_def settings_def)
  from h eg e1 e2 show ?thesis by simp
qed


section \<open>Loitering detector: zero thresholds\<close>

text \<open>
  Claim C10: a speed threshold or a dwell time passed as \<open>0.0\<close> is falsy and is
  replaced by the configured value, so the call behaves as if the argument had been
  omitted; with the default settings this is the call with 2 knots and 4 hours.  On
  the slow track the call with both arguments zero returns the event that the default
  thresholds give.
\<close>

theorem zero_threshold_uses_default:
  fixes df :: "('v::linorder) track_point list"
  shows "detect_loitering self df (Some 0) dt sc = detect_loitering self df None dt sc
       \<and> detect_loitering self df st (Some 0) sc = detect_loitering self df st None sc
       \<and> detect_loitering (LoiteringService_init settings) df (Some 0) (Some 0) sc
           = detect_loitering (LoiteringService_init settings) df (Some 2) (Some 4) sc
       \<and> detect_loitering (LoiteringService_init settings) loiter_track (Some 0) (Some 0) None
           = [\<lparr>ev_mmsi = 7, start_time = 0, end_time = 14400, dwell_time_hours = 4,
               center_latitude = 10, center_longitude = 20, num_points = 5,
               avg_speed = 4 / 5\<rparr>]"
proof -
  have "detect_loitering (LoiteringService_init settings) loiter_track (Some 0) (Some 0) None
           = [\<lparr>ev_mmsi = 7, start_time = 0, end_time = 14400, dwell_time_hours = 4,
               center_latitude = 10, center_longitude = 20, num_points = 5,
               avg_speed = 4 / 5\<rparr>]"
    by (simp add: detect_loitering_def LoiteringService_init_def settings_def loiter_track_def
        pt_def float_or_def slow_rows_def groupby_def vessel_events_def event_groups_def
        event_ids_def cumsum_def make_event_def dwell_time_def mean_def Let_def)
  then show ?thesis
    by (simp add: detect_loitering_def float_or_def LoiteringService_init_def settings_def)
qed

end
